theory Spec2Isabelle
  imports Complex_Main "HOL-Library.AList"
begin

section \<open>Python values used by the program\<close>

text \<open>
  A Python \<open>dict\<close> with string keys keeps insertion order: it is an association list
  with distinct keys. Assigning to an existing key keeps its position, a new key goes to
  the end (\<open>AList.update\<close>), \<open>del d[k]\<close> drops the key (\<open>AList.delete\<close>).
\<close>

type_synonym 'v pydict = "(string \<times> 'v) list"

definition dict_keys :: "'v pydict \<Rightarrow> string list" where
  "dict_keys d = map fst d"

definition dict_has :: "'v pydict \<Rightarrow> string \<Rightarrow> bool" where
  "dict_has d k = (k \<in> set (dict_keys d))"

definition dict_get :: "'v pydict \<Rightarrow> string \<Rightarrow> 'v option" where
  "dict_get d k = map_of d k"

definition dict_set :: "'v pydict \<Rightarrow> string \<Rightarrow> 'v \<Rightarrow> 'v pydict" where
  "dict_set d k v = AList.update k v d"

definition dict_del :: "'v pydict \<Rightarrow> string \<Rightarrow> 'v pydict" where
  "dict_del d k = AList.delete k d"

definition dict_values :: "'v pydict \<Rightarrow> 'v list" where
  "dict_values d = map snd d"

text \<open>Truthiness of an \<open>Optional[str]\<close>: \<open>None\<close> and the empty string are falsy.\<close>

definition truthy :: "string option \<Rightarrow> bool" where
  "truthy x = (case x of None \<Rightarrow> False | Some t \<Rightarrow> t \<noteq> [])"

text \<open>\<open>str(n)\<close> of a natural number and \<open>str(x)\<close> of an \<open>Optional[str]\<close>, as f-strings print them.\<close>

definition digit :: "nat \<Rightarrow> char" where
  "digit d = char_of (48 + d)"

function str_nat :: "nat \<Rightarrow> string" where
  "str_nat n = (if n < 10 then [digit n] else str_nat (n div 10) @ [digit (n mod 10)])"
  by pat_completeness auto
termination
  by (relation "measure id") auto

declare str_nat.simps [simp del]

definition str_opt :: "string option \<Rightarrow> string" where
  "str_opt x = (case x of None \<Rightarrow> ''None'' | Some t \<Rightarrow> t)"

definition nl :: string where
  "nl = [CHR 0x0A]"

definition apostrophe :: string where
  "apostrophe = [CHR 0x27]"

definition quoted :: "string \<Rightarrow> string" where
  "quoted t = apostrophe @ t @ apostrophe"

text \<open>\<open>os.path.basename\<close> (POSIX): everything after the last slash.\<close>

definition os_path_basename :: "string \<Rightarrow> string" where
  "os_path_basename p = rev (takeWhile (\<lambda>c. c \<noteq> CHR ''/'') (rev p))"

text \<open>\<open>message.split(':')[0]\<close>: the text before the first colon.\<close>

definition before_colon :: "string \<Rightarrow> string" where
  "before_colon t = takeWhile (\<lambda>c. c \<noteq> CHR '':'') t"

text \<open>The exceptions the program meets, each with its message.\<close>

datatype exn =
    GoogleAPIError string
  | FileNotFoundError string
  | TimeoutError string
  | ValueError string
  | ConnectionError string
  | IndexError string
  | OtherException string

fun str_exn :: "exn \<Rightarrow> string" where
  "str_exn (GoogleAPIError m) = m"
| "str_exn (FileNotFoundError m) = m"
| "str_exn (TimeoutError m) = m"
| "str_exn (ValueError m) = m"
| "str_exn (ConnectionError m) = m"
| "str_exn (IndexError m) = m"
| "str_exn (OtherException m) = m"

text \<open>
  \<open>ConfigParser\<close> checks a value when it is assigned to an option
  (\<open>BasicInterpolation.before_set\<close>): every \<open>%%\<close> is removed, then every reference to a key (a
  percent sign, an opening parenthesis, one or more characters other than a closing
  parenthesis, a closing parenthesis and the letter s); a \<open>%\<close> that is left makes the assignment
  raise \<open>ValueError\<close>.
\<close>

fun drop_percent_pairs :: "string \<Rightarrow> string" where
  "drop_percent_pairs (a # b # cs) =
     (if a = CHR ''%'' \<and> b = CHR ''%'' then drop_percent_pairs cs else a # drop_percent_pairs (b # cs))"
| "drop_percent_pairs cs = cs"

text \<open>The length of the match of the pattern at the head of a text, \<open>0\<close> when there is none.\<close>

definition key_reference_length :: "string \<Rightarrow> nat" where
  "key_reference_length cs =
     (case cs of
        a # b # rest \<Rightarrow>
          (if a = CHR ''%'' \<and> b = CHR ''(''
              \<and> takeWhile (\<lambda>c. c \<noteq> CHR '')'') rest \<noteq> []
              \<and> take 2 (dropWhile (\<lambda>c. c \<noteq> CHR '')'') rest) = '')s''
           then length (takeWhile (\<lambda>c. c \<noteq> CHR '')'') rest) + 4 else 0)
      | _ \<Rightarrow> 0)"

fun drop_key_references :: "nat \<Rightarrow> string \<Rightarrow> string" where
  "drop_key_references skip [] = []"
| "drop_key_references (Suc skip) (c # cs) = drop_key_references skip cs"
| "drop_key_references 0 (c # cs) =
     (if key_reference_length (c # cs) > 0
      then drop_key_references (key_reference_length (c # cs) - 1) cs
      else c # drop_key_references 0 cs)"

definition interpolation_syntax_ok :: "string \<Rightarrow> bool" where
  "interpolation_syntax_ok v = (CHR ''%'' \<notin> set (drop_key_references 0 (drop_percent_pairs v)))"

text \<open>
  A text that an INI file gives back as it was written: printable ASCII, no \<open>%\<close>, no blank
  at either end.
\<close>

definition plain :: "string \<Rightarrow> bool" where
  "plain v =
     (CHR ''%'' \<notin> set v
      \<and> list_all (\<lambda>c. 32 \<le> (of_char c :: nat) \<and> (of_char c :: nat) < 127) v
      \<and> (v = [] \<or> (hd v \<noteq> CHR '' '' \<and> last v \<noteq> CHR '' '')))"

section \<open>Constants of the program\<close>

definition CONFIG_FILE :: string where
  "CONFIG_FILE = ''konenako_simple_config.ini''"

definition DEFAULT_MODEL :: string where
  "DEFAULT_MODEL = ''gemini-1.5-flash-latest''"

definition DEFAULT_LANGUAGE :: string where
  "DEFAULT_LANGUAGE = ''Finnish''"

definition DEFAULT_TEMPERATURE :: rat where
  "DEFAULT_TEMPERATURE = 6 / 10"

definition ROLE_AI :: string where
  "ROLE_AI = ''model''"

definition ROLE_USER :: string where
  "ROLE_USER = ''user''"

definition ROLE_SYSTEM :: string where
  "ROLE_SYSTEM = ''system''"

section \<open>Data model\<close>

text \<open>An object of the File API: its remote resource name, its display name, its state.\<close>

datatype file_state = ACTIVE | FAILED | PROCESSING | OTHER string

record file_obj =
  name :: string
  display_name :: string
  state :: file_state

text \<open>
  \<open>self.config\<close> is a dict; a key may be absent (\<open>None\<close> below is what \<open>config.get(key)\<close>
  returns then). The key \<open>files\<close> holds the text \<open>'{}'\<close> or a parsed dict, depending on
  the branch of \<open>load_config\<close> that wrote it. The settings dict emitted by the settings
  view has the same keys.
\<close>

datatype files_value = FilesText string | FilesDict "string pydict"

record cfg =
  api_key :: "string option"
  model :: "string option"
  language :: "string option"
  temperature :: "rat option"
  files :: "files_value option"

definition cfg_update :: "cfg \<Rightarrow> cfg \<Rightarrow> cfg" where
  "cfg_update c st =
     \<lparr>api_key = (case api_key st of None \<Rightarrow> api_key c | Some v \<Rightarrow> Some v),
      model = (case model st of None \<Rightarrow> model c | Some v \<Rightarrow> Some v),
      language = (case language st of None \<Rightarrow> language c | Some v \<Rightarrow> Some v),
      temperature = (case temperature st of None \<Rightarrow> temperature c | Some v \<Rightarrow> Some v),
      files = (case files st of None \<Rightarrow> files c | Some v \<Rightarrow> Some v)\<rparr>"

text \<open>
  The INI file as the program uses it: the options of the sections \<open>Settings\<close> and
  \<open>Files\<close>, each present with the text that was assigned to it, or absent.
\<close>

record ini =
  ini_APIKey :: "string option"
  ini_Model :: "string option"
  ini_Language :: "string option"
  ini_Temperature :: "string option"
  ini_LocalPaths :: "string option"

datatype config_file = NoFile | Corrupt string | Ini ini

text \<open>The \<open>GenerativeModel\<close> instance and the \<open>ChatSession\<close> (the n-th one started).\<close>

record generative_model =
  gm_name :: string
  gm_temperature :: rat

type_synonym chat_session = nat

record content =
  role :: string
  parts :: "string list"

text \<open>The worker object held in \<open>self.worker\<close>, with its constructor arguments.\<close>

datatype worker_obj =
    AIChatWorker "chat_session option" string "file_obj option"
  | PDFUploadWorker "string list" "string list"

text \<open>
  The document selector of the chat view, a non-editable \<open>QComboBox\<close>: its items and
  its current index (\<open>-1\<close> when there is none).
\<close>

record combo_box =
  items :: "string list"
  cur :: int

definition combo_currentText :: "combo_box \<Rightarrow> string" where
  "combo_currentText c =
     (if 0 \<le> cur c \<and> cur c < int (length (items c)) then items c ! nat (cur c) else [])"

fun find_index_from :: "int \<Rightarrow> string list \<Rightarrow> string \<Rightarrow> int" where
  "find_index_from i [] t = -1"
| "find_index_from i (x # xs) t = (if x = t then i else find_index_from (i + 1) xs t)"

definition combo_findText :: "combo_box \<Rightarrow> string \<Rightarrow> int" where
  "combo_findText c t = find_index_from 0 (items c) t"

definition combo_setCurrentIndex :: "combo_box \<Rightarrow> int \<Rightarrow> combo_box" where
  "combo_setCurrentIndex c i =
     c\<lparr>cur := (if 0 \<le> i \<and> i < int (length (items c)) then i else -1)\<rparr>"

definition combo_setCurrentText :: "combo_box \<Rightarrow> string \<Rightarrow> combo_box" where
  "combo_setCurrentText c t =
     (let i = combo_findText c t in if i > -1 then combo_setCurrentIndex c i else c)"

definition combo_clear :: "combo_box \<Rightarrow> combo_box" where
  "combo_clear c = \<lparr>items = [], cur = -1\<rparr>"

definition combo_addItems :: "combo_box \<Rightarrow> string list \<Rightarrow> combo_box" where
  "combo_addItems c xs =
     (if items c = [] \<and> xs \<noteq> [] then \<lparr>items = xs, cur = 0\<rparr>
      else c\<lparr>items := items c @ xs\<rparr>)"

text \<open>
  \<open>ChatWidget.update_document_list\<close>: runs with the combo's signals blocked, so it only
  changes the combo.
\<close>

definition update_document_list :: "combo_box \<Rightarrow> string list \<Rightarrow> combo_box" where
  "update_document_list c doc_basenames =
     (let current_selection = combo_currentText c;
          c1 = combo_addItems (combo_clear c) doc_basenames;
          index = combo_findText c1 current_selection
      in if index \<noteq> -1 then combo_setCurrentIndex c1 index
         else if doc_basenames \<noteq> [] then combo_setCurrentIndex c1 0
         else c1)"

text \<open>
  What the program does to the outside, in the order it does it. Each entry of the trace
  also records the session and the history the controller held when the effect was issued.
\<close>

datatype box_kind = Warning | Critical | Information

datatype event =
    MsgBox box_kind string string
  | Status string bool bool
  | ClearChat
  | AddMessage string string
  | ConfigSaved
  | UpdateFileList "string list"
  | UpdateDocumentList "string list"
  | UploadButtonEnabled bool
  | GenaiConfigure string
  | GenaiStartChat
  | GenaiDeleteFile string bool
  | ThreadStarted worker_obj
  | Uncaught exn

type_synonym entry = "event \<times> chat_session option \<times> content list"

record app =
  config :: cfg
  local_file_paths :: "string pydict"
  uploaded_files :: "file_obj pydict"
  ai_model :: "generative_model option"
  current_chat_session :: "chat_session option"
  current_chat_history :: "content list"
  selected_doc_basename :: "string option"
  is_ai_configured :: bool
  is_processing :: bool
  worker :: "worker_obj option"
  combo :: combo_box
  config_file :: config_file
  sessions_started :: nat
  trace :: "entry list"

text \<open>
  The surroundings of the controller: the file system, the Gemini SDK, and the two text
  codecs of the standard library (\<open>str\<close>/\<open>float\<close> of a float, \<open>json.dumps\<close>/\<open>json.loads\<close>),
  whose failure (\<open>ValueError\<close>, \<open>JSONDecodeError\<close>) is \<open>None\<close>. \<open>w_read_back\<close> is what
  \<open>ConfigParser\<close> reads from a file whose options were written with texts that are not
  all plain (interpolation, stripped blanks, line breaks; \<open>None\<close>: a \<open>configparser.Error\<close>).
  \<open>w_set_order\<close> is the order in which a Python set of these names is iterated.
\<close>

datatype configure_outcome = ConfigOk | AuthError string | NotFound | OtherError string

record world =
  w_gemini_imported :: bool
  w_path_exists :: "string \<Rightarrow> bool"
  w_write_error :: "string option"
  w_delete_error :: "string \<Rightarrow> string option"
  w_configure :: "string \<Rightarrow> string \<Rightarrow> rat \<Rightarrow> configure_outcome"
  w_start_chat_error :: "string option"
  w_str_float :: "rat \<Rightarrow> string"
  w_float :: "string \<Rightarrow> rat option"
  w_json_dumps :: "string pydict \<Rightarrow> string"
  w_json_loads :: "string \<Rightarrow> string pydict option"
  w_read_back :: "ini \<Rightarrow> ini option"
  w_set_order :: "string list \<Rightarrow> string list"

section \<open>The controller: status, configuration file\<close>

definition emit :: "event \<Rightarrow> app \<Rightarrow> app" where
  "emit e s = s\<lparr>trace := trace s @ [(e, current_chat_session s, current_chat_history s)]\<rparr>"

definition update_status :: "string \<Rightarrow> bool \<Rightarrow> bool \<Rightarrow> app \<Rightarrow> app" where
  "update_status message is_error processing s =
     emit (Status message is_error processing) (s\<lparr>is_processing := processing\<rparr>)"

definition defaults :: cfg where
  "defaults = \<lparr>api_key = Some [], model = Some DEFAULT_MODEL, language = Some DEFAULT_LANGUAGE,
     temperature = Some DEFAULT_TEMPERATURE, files = Some (FilesText ''{}'')\<rparr>"

definition load_defaults_after_error :: "string \<Rightarrow> app \<Rightarrow> app" where
  "load_defaults_after_error e s =
     emit (MsgBox Warning ''Config Load Error''
            (''Could not load settings from '' @ CONFIG_FILE @ ''. Using defaults.'' @ nl @ ''Error: '' @ e))
       (s\<lparr>config := defaults\<lparr>files := Some (FilesDict [])\<rparr>, local_file_paths := []\<rparr>)"

text \<open>The texts of the options that are present, and what \<open>config.get\<close> returns for each option.\<close>

definition option_texts :: "ini \<Rightarrow> string list" where
  "option_texts f =
     List.map_filter id [ini_APIKey f, ini_Model f, ini_Language f, ini_Temperature f, ini_LocalPaths f]"

definition read_back :: "world \<Rightarrow> ini \<Rightarrow> ini option" where
  "read_back w f = (if list_all plain (option_texts f) then Some f else w_read_back w f)"

definition load_config :: "world \<Rightarrow> app \<Rightarrow> app" where
  "load_config w s =
     (case config_file s of
        NoFile \<Rightarrow> s\<lparr>config := defaults, local_file_paths := []\<rparr>
      | Corrupt e \<Rightarrow> load_defaults_after_error e s
      | Ini written \<Rightarrow>
          (case read_back w written of
             None \<Rightarrow> load_defaults_after_error ''Bad value substitution'' s
           | Some f \<Rightarrow>
          (case (case ini_Temperature f of None \<Rightarrow> Some DEFAULT_TEMPERATURE | Some t \<Rightarrow> w_float w t) of
             None \<Rightarrow> load_defaults_after_error ''could not convert string to float'' s
           | Some temp \<Rightarrow>
               (case w_json_loads w (case ini_LocalPaths f of None \<Rightarrow> ''{}'' | Some t \<Rightarrow> t) of
                  None \<Rightarrow> load_defaults_after_error ''Expecting value'' s
                | Some paths \<Rightarrow>
                    s\<lparr>config := (config s)
                         \<lparr>api_key := Some (case ini_APIKey f of None \<Rightarrow> [] | Some t \<Rightarrow> t),
                          model := Some (case ini_Model f of None \<Rightarrow> DEFAULT_MODEL | Some t \<Rightarrow> t),
                          language := Some (case ini_Language f of None \<Rightarrow> DEFAULT_LANGUAGE | Some t \<Rightarrow> t),
                          temperature := Some temp\<rparr>,
                      local_file_paths := paths\<rparr>))))"

text \<open>The two sections \<open>save_config\<close> builds from \<open>self.config\<close> and \<open>self.local_file_paths\<close>.\<close>

definition sections_to_write :: "world \<Rightarrow> app \<Rightarrow> ini" where
  "sections_to_write w s =
     \<lparr>ini_APIKey = Some (case api_key (config s) of None \<Rightarrow> [] | Some t \<Rightarrow> t),
      ini_Model = Some (case model (config s) of None \<Rightarrow> DEFAULT_MODEL | Some t \<Rightarrow> t),
      ini_Language = Some (case language (config s) of None \<Rightarrow> DEFAULT_LANGUAGE | Some t \<Rightarrow> t),
      ini_Temperature = Some (w_str_float w
         (case temperature (config s) of None \<Rightarrow> DEFAULT_TEMPERATURE | Some t \<Rightarrow> t)),
      ini_LocalPaths = Some (w_json_dumps w (local_file_paths s))\<rparr>"

text \<open>The \<open>try\<close> block of \<open>save_config\<close>: the file is written, or the error is shown.\<close>

definition write_config :: "world \<Rightarrow> app \<Rightarrow> bool \<times> app" where
  "write_config w s =
     (case w_write_error w of
        None \<Rightarrow> (True, emit ConfigSaved (s\<lparr>config_file := Ini (sections_to_write w s)\<rparr>))
      | Some e \<Rightarrow> (False, emit (MsgBox Critical ''Config Save Error''
           (''Could not write settings to '' @ CONFIG_FILE @ ''.'' @ nl @ ''Error: '' @ e)) s))"

text \<open>
  \<open>save_config\<close> assigns the two sections before its \<open>try\<close>: a text that fails the check of
  \<open>ConfigParser\<close> makes it raise \<open>ValueError\<close> (\<open>Inl\<close>), and nothing is written.
\<close>

definition save_config :: "world \<Rightarrow> app \<Rightarrow> exn + (bool \<times> app)" where
  "save_config w s =
     (if list_all interpolation_syntax_ok (option_texts (sections_to_write w s))
      then Inr (write_config w s)
      else Inl (ValueError ''invalid interpolation syntax''))"

text \<open>
  No caller of \<open>save_config\<close> catches the exception: it leaves the slot, which ends there
  with the state as it is.
\<close>

definition uncaught :: "exn \<Rightarrow> app \<Rightarrow> app" where
  "uncaught e s = emit (Uncaught e) s"

section \<open>The controller: chat sessions and document selection\<close>

definition build_system_prompt :: "app \<Rightarrow> string \<Rightarrow> string" where
  "build_system_prompt s current_doc_name =
     (let language = (case language (config s) of None \<Rightarrow> DEFAULT_LANGUAGE | Some l \<Rightarrow> l) in
      ''You are '' @ quoted (''Konen'' @ [CHR 0xE4] @ ''k'' @ [CHR 0xF6] @ '' Tutor'')
        @ '', an AI assistant for a Machine Vision course teaching in '' @ language @ ''.'' @ nl
      @ ''Your goal is to help the student understand the concepts presented ONLY in the provided course document: ''
        @ quoted current_doc_name @ ''.'' @ nl
      @ ''The document is provided via the File API and you should have access to it.'' @ nl @ nl
      @ ''Based on our chat history and the document content, guide the student:'' @ nl
      @ ''- Explain concepts clearly.'' @ nl
      @ ''- Ask relevant questions.'' @ nl
      @ ''- Provide exercises when appropriate.'' @ nl
      @ ''- Offer constructive feedback.'' @ nl
      @ ''- Maintain a supportive, conversational tone.'' @ nl
      @ ''- Adapt based on the student'' @ apostrophe @ ''s input.'' @ nl @ nl
      @ ''CRITICAL RULES:'' @ nl
      @ ''- Base ALL output STRICTLY on the provided document '' @ quoted ''{current_doc_name}''
        @ ''. If info isn'' @ apostrophe @ ''t there, say so.'' @ nl
      @ ''- Use citations like '' @ quoted ''[Page X]'' @ '' or '' @ quoted ''[Section Y]''
        @ '' when referencing the document.'' @ nl
      @ ''- Decide the conversational next step (explain, ask, exercise, etc.).'' @ nl
      @ ''- Wait for the student'' @ apostrophe @ ''s input after asking a question or giving an exercise.'')"

definition start_ai_chat_turn :: "string \<Rightarrow> bool \<Rightarrow> app \<Rightarrow> app" where
  "start_ai_chat_turn message_for_ai is_initial_turn s =
     (if current_chat_session s = None \<or> \<not> is_ai_configured s then s
      else
        (let s1 = update_status ''AI is thinking...'' False True s;
             doc_ref = (case selected_doc_basename s1 of None \<Rightarrow> None
                        | Some b \<Rightarrow> dict_get (uploaded_files s1) b);
             wk = AIChatWorker (current_chat_session s1) message_for_ai doc_ref
         in emit (ThreadStarted wk) (s1\<lparr>worker := Some wk\<rparr>)))"

text \<open>The part of \<open>_try_start_chat_session\<close> under its comment \<open>Start New Chat\<close>.\<close>

definition start_new_chat :: "world \<Rightarrow> string \<Rightarrow> app \<Rightarrow> app" where
  "start_new_chat w sel s =
     (let s1 = update_status (''Initializing chat for '' @ sel @ ''...'') False True s;
          system_prompt = build_system_prompt s1 sel
      in case w_start_chat_error w of
           None \<Rightarrow>
             (let s2 = emit GenaiStartChat
                    (s1\<lparr>current_chat_session := Some (sessions_started s1),
                        sessions_started := Suc (sessions_started s1)\<rparr>);
                  initial_message_to_ai = system_prompt @ nl @ nl
                    @ ''Let'' @ apostrophe @ ''s begin. Please provide a brief introduction to the document ''
                    @ quoted sel @ '' or suggest a starting point for discussion.''
              in start_ai_chat_turn initial_message_to_ai True s2)
         | Some e \<Rightarrow>
             (update_status ''Error starting chat.'' True False
                (emit (MsgBox Critical ''Chat Error'' (''Failed to start chat session: '' @ e)) s1))
               \<lparr>current_chat_session := None\<rparr>)"

text \<open>
  The branch of \<open>handle_document_selection_change\<close> for a name that is not uploaded: a
  warning, and the combo put back (signals blocked) on the previous selection.
\<close>

definition reject_selection :: "string \<Rightarrow> app \<Rightarrow> app" where
  "reject_selection selected_basename s =
     (let s1 = emit (MsgBox Warning ''File Not Uploaded''
                 (quoted selected_basename @ '' has not been successfully uploaded to the AI. Please use ''
                   @ quoted ''Upload to AI'' @ '' in Settings.'')) s;
          index = combo_findText (combo s1) (case selected_doc_basename s1 of None \<Rightarrow> [] | Some b \<Rightarrow> b)
      in s1\<lparr>combo := combo_setCurrentIndex (combo s1) (if index \<noteq> -1 then index else 0)\<rparr>)"

definition select_document :: "string \<Rightarrow> app \<Rightarrow> app" where
  "select_document selected_basename s =
     update_status (''Starting chat for document: '' @ selected_basename @ ''...'') False False
       (emit ClearChat
          (s\<lparr>selected_doc_basename := Some selected_basename,
              current_chat_session := None,
              current_chat_history := []\<rparr>))"

text \<open>
  \<open>_try_start_chat_session\<close> sets the combo's text when no document is selected; the
  combo's signal \<open>currentTextChanged\<close> is connected to \<open>handle_document_selection_change\<close>
  and is delivered, synchronously, when the current text really changes. The two methods
  call each other.
\<close>

function try_start_chat_session :: "world \<Rightarrow> app \<Rightarrow> app"
  and handle_document_selection_change :: "world \<Rightarrow> string \<Rightarrow> app \<Rightarrow> app" where
  "try_start_chat_session w s =
     (if \<not> is_ai_configured s \<or> ai_model s = None then s
      else if \<not> truthy (selected_doc_basename s) then
        (case dict_keys (uploaded_files s) of
           [] \<Rightarrow> update_status ''Select a document (or add/upload files).'' False False s
         | b0 # rest \<Rightarrow>
             (if combo_currentText (combo_setCurrentText (combo s) b0) \<noteq> combo_currentText (combo s)
              then handle_document_selection_change w
                     (combo_currentText (combo_setCurrentText (combo s) b0))
                     (s\<lparr>combo := combo_setCurrentText (combo s) b0\<rparr>)
              else s\<lparr>combo := combo_setCurrentText (combo s) b0\<rparr>))
      else if \<not> dict_has (uploaded_files s) (str_opt (selected_doc_basename s)) then
        update_status (''Error: '' @ quoted (str_opt (selected_doc_basename s)) @ '' not uploaded.'') True False s
      else if current_chat_session s \<noteq> None then
        update_status (''Chatting about: '' @ str_opt (selected_doc_basename s)) False False s
      else start_new_chat w (str_opt (selected_doc_basename s)) s)"
| "handle_document_selection_change w selected_basename s =
     (if is_processing s \<or> selected_basename = [] \<or> Some selected_basename = selected_doc_basename s then s
      else if \<not> dict_has (uploaded_files s) selected_basename then reject_selection selected_basename s
      else try_start_chat_session w (select_document selected_basename s))"
  by pat_completeness auto
termination
  by (relation "measure (\<lambda>x. case x of
          Inl (w, s) \<Rightarrow> (if truthy (selected_doc_basename s) then 0 else 2)
        | Inr (w, b, s) \<Rightarrow> 1)")
     (auto simp: truthy_def select_document_def update_status_def emit_def)

declare try_start_chat_session.simps [simp del]
declare handle_document_selection_change.simps [simp del]

definition handle_user_message :: "string \<Rightarrow> app \<Rightarrow> app" where
  "handle_user_message user_text s =
     (if is_processing s then
        emit (MsgBox Warning ''Busy'' (''Please wait for the AI'' @ apostrophe @ ''s response.'')) s
      else if current_chat_session s = None then
        emit (MsgBox Warning ''No Chat Active'' ''Please select an uploaded document to start chatting.'') s
      else
        (let s1 = emit (AddMessage ROLE_USER user_text) s;
             s2 = s1\<lparr>current_chat_history :=
                        current_chat_history s1 @ [\<lparr>role = ROLE_USER, parts = [user_text]\<rparr>]\<rparr>
         in start_ai_chat_turn user_text False s2))"

definition handle_ai_result :: "string \<Rightarrow> app \<Rightarrow> app" where
  "handle_ai_result ai_response_text s =
     (let s1 = emit (AddMessage ROLE_AI ai_response_text) s;
          s2 = s1\<lparr>current_chat_history :=
                     current_chat_history s1 @ [\<lparr>role = ROLE_AI, parts = [ai_response_text]\<rparr>]\<rparr>
      in update_status (''Chatting about: '' @ str_opt (selected_doc_basename s2)) False False s2)"

definition handle_ai_error :: "string \<Rightarrow> app \<Rightarrow> app" where
  "handle_ai_error error_message s =
     update_status (''AI Error: '' @ before_colon error_message) True False
       (emit (AddMessage ROLE_SYSTEM (''Error: '' @ error_message)) s)"

section \<open>The controller: user interface refresh, AI initialisation\<close>

text \<open>
  A change of the combo made with its signals not blocked: when the current text changes,
  \<open>currentTextChanged\<close> calls \<open>handle_document_selection_change\<close> with the new text.
\<close>

definition combo_changed :: "world \<Rightarrow> combo_box \<Rightarrow> app \<Rightarrow> app" where
  "combo_changed w c s =
     (if combo_currentText c \<noteq> combo_currentText (combo s)
      then handle_document_selection_change w (combo_currentText c) (s\<lparr>combo := c\<rparr>)
      else s\<lparr>combo := c\<rparr>)"

definition update_ui_state :: "world \<Rightarrow> app \<Rightarrow> app" where
  "update_ui_state w s =
     (let local_basenames = dict_keys (local_file_paths s);
          s1 = emit (UpdateFileList local_basenames) s;
          uploaded_basenames = dict_keys (uploaded_files s1);
          s2 = emit (UpdateDocumentList uploaded_basenames)
                 (s1\<lparr>combo := update_document_list (combo s1) uploaded_basenames\<rparr>);
          s3 = emit (UploadButtonEnabled (local_file_paths s2 \<noteq> [] \<and> is_ai_configured s2)) s2
      in if truthy (selected_doc_basename s3) \<and> str_opt (selected_doc_basename s3) \<in> set uploaded_basenames then
           (if combo_currentText (combo s3) \<noteq> str_opt (selected_doc_basename s3)
            then combo_changed w (combo_setCurrentText (combo s3) (str_opt (selected_doc_basename s3))) s3
            else s3)
         else if uploaded_basenames \<noteq> [] then
           (if cur (combo s3) = -1 then combo_changed w (combo_setCurrentIndex (combo s3) 0) s3 else s3)
         else s3)"

definition show_chat_view :: "world \<Rightarrow> app \<Rightarrow> app" where
  "show_chat_view w s = update_ui_state w s"

definition initialize_ai :: "world \<Rightarrow> app \<Rightarrow> bool \<times> app" where
  "initialize_ai w s =
     (if \<not> w_gemini_imported w then
        (False, update_status ''Google AI library not installed.'' True False s)
      else if \<not> truthy (api_key (config s)) \<or> \<not> truthy (model (config s)) then
        (False, update_status ''API Key or Model Name missing in settings.'' True False s)
      else
        (let key = str_opt (api_key (config s));
             model_name = str_opt (model (config s));
             temp = (case temperature (config s) of None \<Rightarrow> DEFAULT_TEMPERATURE | Some t \<Rightarrow> t);
             s1 = update_status ''Configuring AI...'' False True s;
             s2 = emit (GenaiConfigure key)
                    (s1\<lparr>is_ai_configured := False, ai_model := None, current_chat_session := None\<rparr>)
         in case w_configure w key model_name temp of
              ConfigOk \<Rightarrow>
                (True, try_start_chat_session w
                   (update_status (''AI Configured: '' @ quoted model_name @ ''. Ready.'') False False
                      (s2\<lparr>ai_model := Some \<lparr>gm_name = model_name, gm_temperature = temp\<rparr>,
                          is_ai_configured := True\<rparr>)))
            | AuthError e \<Rightarrow>
                (let error_msg = ''Authentication Error: '' @ e @ ''. Check API Key/Project.'' in
                 (False, (update_status error_msg True False (emit (MsgBox Critical ''AI Config Error'' error_msg) s2))
                           \<lparr>ai_model := None, current_chat_session := None\<rparr>))
            | NotFound \<Rightarrow>
                (let error_msg = ''Model '' @ quoted model_name @ '' not found.'' in
                 (False, (update_status error_msg True False (emit (MsgBox Critical ''AI Config Error'' error_msg) s2))
                           \<lparr>ai_model := None, current_chat_session := None\<rparr>))
            | OtherError e \<Rightarrow>
                (let error_msg = ''AI configuration failed: '' @ e in
                 (False, (update_status error_msg True False (emit (MsgBox Critical ''AI Config Error'' error_msg) s2))
                           \<lparr>ai_model := None, current_chat_session := None\<rparr>))))"

definition apply_and_save_settings :: "world \<Rightarrow> cfg \<Rightarrow> app \<Rightarrow> app" where
  "apply_and_save_settings w settings s =
     (if is_processing s then
        emit (MsgBox Warning ''Busy'' ''Cannot change settings while a task is running.'') s
      else
        (let old_api_key = api_key (config s);
             old_model = model (config s);
             s1 = s\<lparr>config := cfg_update (config s) settings\<rparr>
         in case save_config w s1 of
              Inl e \<Rightarrow> uncaught e s1
            | Inr (True, s2) \<Rightarrow>
                (let s3 = update_status ''Settings saved.'' False False s2 in
                 if api_key settings \<noteq> old_api_key \<or> model settings \<noteq> old_model then
                   snd (initialize_ai w
                          (update_status ''API Key or Model changed, re-initializing AI...'' False False s3))
                 else s3)
            | Inr (False, s2) \<Rightarrow> update_status ''Failed to save settings.'' True False s2))"

section \<open>The controller: file management\<close>

fun add_files_loop :: "world \<Rightarrow> string list \<Rightarrow> app \<times> nat \<Rightarrow> app \<times> nat" where
  "add_files_loop w [] (s, added) = (s, added)"
| "add_files_loop w (path # file_paths) (s, added) =
     (if \<not> w_path_exists w path then
        add_files_loop w file_paths
          (emit (MsgBox Warning ''File Not Found'' (''Skipping missing file: '' @ path)) s, added)
      else if \<not> dict_has (local_file_paths s) (os_path_basename path) then
        add_files_loop w file_paths
          (s\<lparr>local_file_paths := dict_set (local_file_paths s) (os_path_basename path) path\<rparr>, added + 1)
      else
        add_files_loop w file_paths
          (emit (MsgBox Warning ''Duplicate File''
                   (quoted (os_path_basename path) @ '' is already in the list.'')) s, added))"

definition add_files :: "world \<Rightarrow> string list \<Rightarrow> app \<Rightarrow> app" where
  "add_files w file_paths s =
     (if is_processing s then emit (MsgBox Warning ''Busy'' ''Cannot add files now.'') s
      else case add_files_loop w file_paths (s, 0) of
        (s1, added) \<Rightarrow>
          if added > 0 then
            (case save_config w s1 of
               Inl e \<Rightarrow> uncaught e s1
             | Inr (saved, s2) \<Rightarrow>
                 update_status (''Added '' @ str_nat added @ '' files. Please '' @ quoted ''Upload to AI'' @ ''.'')
                   False False (update_ui_state w s2))
          else s1)"

fun delete_loop :: "world \<Rightarrow> file_obj list \<Rightarrow> app \<times> nat \<times> nat \<Rightarrow> app \<times> nat \<times> nat" where
  "delete_loop w [] acc = acc"
| "delete_loop w (file_obj # rest) (s, deleted_count, failed_count) =
     (case w_delete_error w (name file_obj) of
        None \<Rightarrow> delete_loop w rest (emit (GenaiDeleteFile (name file_obj) True) s, deleted_count + 1, failed_count)
      | Some e \<Rightarrow> delete_loop w rest (emit (GenaiDeleteFile (name file_obj) False) s, deleted_count, failed_count + 1))"

definition attempt_backend_deletion :: "world \<Rightarrow> file_obj list \<Rightarrow> app \<Rightarrow> app" where
  "attempt_backend_deletion w file_api_objects s =
     (if file_api_objects = [] then s
      else if \<not> is_ai_configured s then s
      else case delete_loop w file_api_objects (s, 0, 0) of
        (s1, deleted_count, failed_count) \<Rightarrow>
          if failed_count > 0 then
            emit (MsgBox Warning ''Backend Deletion Issue''
                    (''Failed to delete '' @ str_nat failed_count
                      @ '' file(s) from the AI backend. They might need manual cleanup.'')) s1
          else s1)"

fun remove_files_loop :: "string list \<Rightarrow> app \<times> nat \<times> file_obj list \<Rightarrow> app \<times> nat \<times> file_obj list" where
  "remove_files_loop [] acc = acc"
| "remove_files_loop (basename # rest) (s, removed_count, files_to_delete_backend) =
     (if dict_has (local_file_paths s) basename then
        (case dict_get (uploaded_files s) basename of
           Some file_obj \<Rightarrow>
             remove_files_loop rest
               (s\<lparr>local_file_paths := dict_del (local_file_paths s) basename,
                   uploaded_files := dict_del (uploaded_files s) basename\<rparr>,
                removed_count + 1, files_to_delete_backend @ [file_obj])
         | None \<Rightarrow>
             remove_files_loop rest
               (s\<lparr>local_file_paths := dict_del (local_file_paths s) basename\<rparr>,
                removed_count + 1, files_to_delete_backend))
      else remove_files_loop rest (s, removed_count, files_to_delete_backend))"

definition reset_chat :: "app \<Rightarrow> app" where
  "reset_chat s =
     emit ClearChat
       (s\<lparr>selected_doc_basename := None, current_chat_session := None, current_chat_history := []\<rparr>)"

definition remove_files :: "world \<Rightarrow> string list \<Rightarrow> app \<Rightarrow> app" where
  "remove_files w basenames_to_remove s =
     (if is_processing s then emit (MsgBox Warning ''Busy'' ''Cannot remove files now.'') s
      else case remove_files_loop basenames_to_remove (s, 0, []) of
        (s1, removed_count, files_to_delete_backend) \<Rightarrow>
          if removed_count > 0 then
            (let s2 = (if (case selected_doc_basename s1 of None \<Rightarrow> False
                           | Some b \<Rightarrow> b \<in> set basenames_to_remove)
                       then reset_chat s1 else s1)
             in case save_config w s2 of
                  Inl e \<Rightarrow> uncaught e s2
                | Inr (saved, s3) \<Rightarrow>
                    (let s4 = attempt_backend_deletion w files_to_delete_backend s3;
                         s5 = update_ui_state w s4;
                         s6 = update_status (''Removed '' @ str_nat removed_count @ '' files.'') False False s5
                     in if local_file_paths s6 = [] then update_status ''No local files loaded.'' False False s6
                        else if uploaded_files s6 = [] then
                          update_status ''No files uploaded to AI. Please Upload.'' False False s6
                        else s6))
          else s1)"

definition clear_all_files :: "world \<Rightarrow> app \<Rightarrow> app" where
  "clear_all_files w s =
     (if is_processing s then emit (MsgBox Warning ''Busy'' ''Cannot clear files now.'') s
      else if local_file_paths s = [] then s
      else
        (let files_to_delete_backend = dict_values (uploaded_files s);
             s1 = reset_chat (s\<lparr>local_file_paths := [], uploaded_files := []\<rparr>)
         in case save_config w s1 of
              Inl e \<Rightarrow> uncaught e s1
            | Inr (saved, s2) \<Rightarrow>
                (let s3 = attempt_backend_deletion w files_to_delete_backend s2;
                     s4 = update_ui_state w s3
                 in update_status ''Cleared all files.'' False False s4)))"

section \<open>The controller: upload\<close>

text \<open>
  The names to upload are listed from a set difference (\<open>local_file_paths.keys() -
  uploaded_files.keys()\<close>): the list holds the local names that are not uploaded, in the order
  in which Python iterates that set (\<open>w_set_order\<close>), which is not the order of the dict.
\<close>

definition upload_files_to_ai :: "world \<Rightarrow> app \<Rightarrow> app" where
  "upload_files_to_ai w s =
     (if is_processing s then emit (MsgBox Warning ''Busy'' ''Already processing.'') s
      else if \<not> is_ai_configured s then emit (MsgBox Critical ''Error'' ''AI not configured.'') s
      else if local_file_paths s = [] then
        emit (MsgBox Information ''No Files'' ''Add files to the list first.'') s
      else
        (let files_to_upload_basenames =
               w_set_order w (filter (\<lambda>b. \<not> dict_has (uploaded_files s) b) (dict_keys (local_file_paths s)));
             paths_to_upload = List.map_filter (dict_get (local_file_paths s)) files_to_upload_basenames
         in if paths_to_upload = [] then
              emit (MsgBox Information ''Up-to-date'' ''All local files appear to be already uploaded.'') s
            else if filter (\<lambda>p. \<not> w_path_exists w p) paths_to_upload \<noteq> [] then
              emit (MsgBox Critical ''File Not Found''
                      (''Cannot upload. Missing:'' @ nl
                        @ concat (map (\<lambda>p. p @ nl) (butlast (filter (\<lambda>p. \<not> w_path_exists w p) paths_to_upload)))
                        @ last (filter (\<lambda>p. \<not> w_path_exists w p) paths_to_upload))) s
            else
              (let s1 = update_status (''Starting upload for '' @ str_nat (length paths_to_upload) @ '' file(s)...'')
                          False True s;
                   wk = PDFUploadWorker paths_to_upload files_to_upload_basenames
               in emit (ThreadStarted wk) (s1\<lparr>worker := Some wk\<rparr>))))"

fun handle_upload_loop :: "world \<Rightarrow> file_obj list \<Rightarrow> app \<times> nat \<Rightarrow> app \<times> nat" where
  "handle_upload_loop w [] acc = acc"
| "handle_upload_loop w (file_obj # rest) (s, newly_uploaded_count) =
     (if display_name file_obj \<noteq> [] \<and> dict_has (local_file_paths s) (display_name file_obj) then
        handle_upload_loop w rest
          (s\<lparr>uploaded_files := dict_set (uploaded_files s) (display_name file_obj) file_obj\<rparr>,
           newly_uploaded_count + 1)
      else handle_upload_loop w rest (attempt_backend_deletion w [file_obj] s, newly_uploaded_count))"

definition handle_upload_finished :: "world \<Rightarrow> file_obj list \<Rightarrow> app \<Rightarrow> app" where
  "handle_upload_finished w uploaded_file_objects s =
     (case handle_upload_loop w uploaded_file_objects (s, 0) of
        (s1, newly_uploaded_count) \<Rightarrow>
          (let total_uploaded = length (uploaded_files s1);
               total_local = length (local_file_paths s1);
               s2 = (if newly_uploaded_count > 0 then
                       update_status (''Uploaded '' @ str_nat newly_uploaded_count @ '' file(s). Total active: ''
                         @ str_nat total_uploaded @ ''/'' @ str_nat total_local @ ''.'') False False s1
                     else if total_uploaded = total_local \<and> total_local > 0 then
                       update_status (''All '' @ str_nat total_local @ '' files are active on backend.'')
                         False False s1
                     else
                       update_status (''Upload finished, but issues occurred. Active: ''
                         @ str_nat total_uploaded @ ''/'' @ str_nat total_local @ ''.'') True False s1)
           in try_start_chat_session w (update_ui_state w s2)))"

definition handle_upload_error :: "string \<Rightarrow> app \<Rightarrow> app" where
  "handle_upload_error error_message s =
     update_status (''Upload failed: '' @ before_colon error_message) True False
       (emit (MsgBox Critical ''Upload Error'' error_message) s)"

definition on_thread_finished :: "app \<Rightarrow> app" where
  "on_thread_finished s = s\<lparr>worker := None\<rparr>"

section \<open>The worker objects\<close>

text \<open>
  A worker runs on its own thread. What it meets there is given by an environment: the
  answers of the file system and of the SDK, and the moment \<open>stop()\<close> is called on it from
  the control thread. That moment only shows in what the worker's reads of \<open>_is_running\<close>
  return, so it is counted in the worker's steps, a step being a blocking call (a sleep or
  a call of the SDK) or a read of \<open>_is_running\<close>: \<open>Some k\<close> is a \<open>stop()\<close> that lands when \<open>k\<close> steps
  are done (\<open>Some 0\<close>: before \<open>run\<close> starts), so that the reads made from then on return
  \<open>False\<close>; \<open>None\<close> is a worker never stopped. A \<open>stop()\<close> can so land between a read and the
  statement the read guards. The clock is virtual: \<open>time.sleep(d)\<close> advances it by \<open>d\<close>
  seconds.
\<close>

fun str_state :: "file_state \<Rightarrow> string" where
  "str_state ACTIVE = ''ACTIVE''"
| "str_state FAILED = ''FAILED''"
| "str_state PROCESSING = ''PROCESSING''"
| "str_state (OTHER x) = x"

datatype signal =
    Finished "file_obj list"
  | ErrorOccurred string
  | ProgressUpdate string
  | FileProcessed string
  | ResultReady string

datatype blocking_call =
    Sleep rat
  | UploadFile string string string
  | GetFile string
  | DeleteFile string
  | SendMessage string

record worker_st =
  ticks :: nat
  clock :: rat
  emitted :: "signal list"
  calls :: "blocking_call list"
  temp_uploaded_references :: "file_obj list"

definition worker_start :: worker_st where
  "worker_start = \<lparr>ticks = 0, clock = 0, emitted = [], calls = [], temp_uploaded_references = []\<rparr>"

text \<open>What a read of \<open>_is_running\<close> made in the state \<open>st\<close> returns, and the state after the read.\<close>

definition is_running :: "nat option \<Rightarrow> worker_st \<Rightarrow> bool" where
  "is_running stop_at st = (case stop_at of None \<Rightarrow> True | Some k \<Rightarrow> ticks st < k)"

definition tested :: "worker_st \<Rightarrow> worker_st" where
  "tested st = st\<lparr>ticks := Suc (ticks st)\<rparr>"

definition tick :: "blocking_call \<Rightarrow> worker_st \<Rightarrow> worker_st" where
  "tick c st = st\<lparr>ticks := Suc (ticks st), calls := calls st @ [c]\<rparr>"

definition sleep :: "rat \<Rightarrow> worker_st \<Rightarrow> worker_st" where
  "sleep d st = (tick (Sleep d) st)\<lparr>clock := clock st + d\<rparr>"

definition emit_signal :: "signal \<Rightarrow> worker_st \<Rightarrow> worker_st" where
  "emit_signal g st = st\<lparr>emitted := emitted st @ [g]\<rparr>"

subsection \<open>AIChatWorker\<close>

text \<open>
  \<open>send_message\<close> raises, or returns a response whose \<open>text\<close> raises \<open>ValueError\<close> or is the
  reply.
\<close>

record chat_env =
  ce_send_message :: "string \<Rightarrow> exn + (string + string)"
  ce_stop_at :: "nat option"

fun chat_error_text :: "exn \<Rightarrow> string" where
  "chat_error_text (GoogleAPIError m) = ''AI Error: '' @ m"
| "chat_error_text (ConnectionError m) = ''AI Error: '' @ m"
| "chat_error_text (ValueError m) = ''AI Error: '' @ m"
| "chat_error_text e = ''Unexpected Error: '' @ str_exn e"

definition AIChatWorker_run :: "chat_env \<Rightarrow> chat_session option \<Rightarrow> string \<Rightarrow> file_obj option \<Rightarrow> worker_st" where
  "AIChatWorker_run env chat_session user_message_text doc_ref =
     (if \<not> is_running (ce_stop_at env) worker_start then tested worker_start
      else if chat_session = None then
        emit_signal (ErrorOccurred ''AI Chat session not initialized.'') (tested worker_start)
      else
        (let st = tick (SendMessage user_message_text) (tested worker_start) in
         case ce_send_message env user_message_text of
           Inl e \<Rightarrow>
             (if is_running (ce_stop_at env) st
              then emit_signal (ErrorOccurred (chat_error_text e)) (tested st) else tested st)
         | Inr response \<Rightarrow>
             (if \<not> is_running (ce_stop_at env) st then tested st
              else case response of
                Inl m \<Rightarrow>
                  (if is_running (ce_stop_at env) (tested st)
                   then emit_signal (ErrorOccurred (chat_error_text (ValueError m))) (tested (tested st))
                   else tested (tested st))
              | Inr response_text \<Rightarrow>
                  (if is_running (ce_stop_at env) (tested st)
                   then emit_signal (ResultReady response_text) (tested (tested st))
                   else tested (tested st)))))"

subsection \<open>PDFUploadWorker\<close>

text \<open>
  \<open>ue_get_file nm n\<close> is the answer to the \<open>n\<close>-th status check of this run of the wait
  loop on the remote name \<open>nm\<close>.
\<close>

record upload_env =
  ue_path_exists :: "string \<Rightarrow> bool"
  ue_guess_type :: "string \<Rightarrow> string option"
  ue_upload_file :: "string \<Rightarrow> string \<Rightarrow> string \<Rightarrow> exn + file_obj"
  ue_get_file :: "string \<Rightarrow> nat \<Rightarrow> exn + file_obj"
  ue_delete_file :: "string \<Rightarrow> exn option"
  ue_stop_at :: "nat option"

definition max_wait :: rat where
  "max_wait = 120"

text \<open>
  The wait loop of one file. Its result is the exception it raised, if any, and the state
  it left; it leaves normally by a \<open>break\<close> (the file is \<open>ACTIVE\<close>, or the worker was
  stopped), and through its \<open>else\<close> branch, which raises \<open>TimeoutError\<close>, when the time is up.
\<close>

partial_function (option) wait_loop ::
  "upload_env \<Rightarrow> string \<Rightarrow> rat \<Rightarrow> rat \<Rightarrow> nat \<Rightarrow> file_obj \<Rightarrow> worker_st \<Rightarrow> (exn option \<times> worker_st) option" where
  "wait_loop env filename start_time wait_time n uploaded_file st =
     (if clock st - start_time < max_wait then
        (if \<not> is_running (ue_stop_at env) st then Some (None, tested st)
         else case ue_get_file env (name uploaded_file) n of
           Inl get_err \<Rightarrow>
             wait_loop env filename start_time wait_time (Suc n) uploaded_file
               (sleep wait_time (tick (GetFile (name uploaded_file)) (tested st)))
         | Inr f \<Rightarrow>
             (case state f of
                ACTIVE \<Rightarrow>
                  Some (None, (emit_signal (FileProcessed filename) (tick (GetFile (name uploaded_file)) (tested st)))
                     \<lparr>temp_uploaded_references :=
                        temp_uploaded_references st @ [f]\<rparr>)
              | FAILED \<Rightarrow>
                  Some (Some (GoogleAPIError (''File processing failed for '' @ quoted filename
                                @ '': State='' @ str_state (state f))),
                        tick (DeleteFile (name f)) (tick (GetFile (name uploaded_file)) (tested st)))
              | PROCESSING \<Rightarrow>
                  (if \<not> is_running (ue_stop_at env) (tick (GetFile (name uploaded_file)) (tested st))
                   then Some (None, tested (tick (GetFile (name uploaded_file)) (tested st)))
                   else wait_loop env filename start_time (min (wait_time * (3 / 2)) 15) (Suc n) f
                          (sleep wait_time (tested (tick (GetFile (name uploaded_file)) (tested st)))))
              | OTHER x \<Rightarrow>
                  Some (Some (GoogleAPIError (''Unexpected state for '' @ quoted filename @ '': '' @ x)),
                        tick (GetFile (name uploaded_file)) (tested st))))
      else
        Some (Some (TimeoutError (''Timeout processing file '' @ quoted filename)),
              tick (DeleteFile (name uploaded_file)) st))"

declare wait_loop.simps [code]

text \<open>The \<open>for\<close> loop over the files, from index \<open>i\<close>.\<close>

fun upload_loop ::
  "upload_env \<Rightarrow> string list \<Rightarrow> nat \<Rightarrow> string list \<Rightarrow> worker_st \<Rightarrow> (exn option \<times> worker_st) option" where
  "upload_loop env basenames i [] st = Some (None, st)"
| "upload_loop env basenames i (file_path # rest) st =
     (if \<not> is_running (ue_stop_at env) st then Some (None, tested st)
      else if \<not> i < length basenames then Some (Some (IndexError ''list index out of range''), tested st)
      else
        (let filename = basenames ! i;
             st1 = emit_signal (ProgressUpdate (''Uploading '' @ filename @ ''...'')) (tested st);
             mime_type = (case ue_guess_type env file_path of
                            None \<Rightarrow> ''application/octet-stream''
                          | Some m \<Rightarrow> if m = [] then ''application/octet-stream'' else m)
         in if \<not> ue_path_exists env file_path then
              Some (Some (FileNotFoundError (''File disappeared before upload: '' @ filename)), st1)
            else
              (case ue_upload_file env file_path filename mime_type of
                 Inl e \<Rightarrow> Some (Some e, tick (UploadFile file_path filename mime_type) st1)
               | Inr uploaded_file \<Rightarrow>
                   (let st2 = tick (UploadFile file_path filename mime_type) st1 in
                    if \<not> is_running (ue_stop_at env) st2 then Some (None, tested st2)
                    else
                      (case wait_loop env filename (clock st2) 5 0 uploaded_file
                              (emit_signal (ProgressUpdate (''Processing '' @ filename @ ''...'')) (tested st2)) of
                         None \<Rightarrow> None
                       | Some (Some e, st3) \<Rightarrow> Some (Some e, st3)
                       | Some (None, st3) \<Rightarrow>
                           if \<not> is_running (ue_stop_at env) st3 then Some (None, tested st3)
                           else upload_loop env basenames (Suc i) rest (tested st3))))))"

fun upload_error_text :: "exn \<Rightarrow> string" where
  "upload_error_text (GoogleAPIError m) = ''Upload Error: '' @ m"
| "upload_error_text (FileNotFoundError m) = ''Upload Error: '' @ m"
| "upload_error_text (TimeoutError m) = ''Upload Error: '' @ m"
| "upload_error_text (ValueError m) = ''Upload Error: '' @ m"
| "upload_error_text e = ''Unexpected Upload Error: '' @ str_exn e"

definition PDFUploadWorker_run :: "upload_env \<Rightarrow> string list \<Rightarrow> string list \<Rightarrow> worker_st option" where
  "PDFUploadWorker_run env file_paths basenames =
     (if \<not> is_running (ue_stop_at env) worker_start then
        Some (emit_signal (ErrorOccurred ''Upload stopped.'') (tested worker_start))
      else
        (case upload_loop env basenames 0 file_paths (sleep (1 / 10) (tested worker_start)) of
           None \<Rightarrow> None
         | Some (Some e, st) \<Rightarrow> Some (emit_signal (ErrorOccurred (upload_error_text e)) st)
         | Some (None, st) \<Rightarrow>
             if is_running (ue_stop_at env) st
             then Some (emit_signal (Finished (temp_uploaded_references st)) (tested st))
             else Some (tested st)))"

section \<open>Signals back to the controller, start of the application\<close>

text \<open>
  The connections made in \<open>upload_files_to_ai\<close> and \<open>_start_ai_chat_turn\<close>: each signal of
  the worker runs its slot on the control thread; \<open>finished\<close>, \<open>result_ready\<close> and
  \<open>error_occurred\<close> also quit the thread, whose end runs \<open>_on_thread_finished\<close>.
\<close>

fun deliver_upload_signal :: "world \<Rightarrow> app \<Rightarrow> signal \<Rightarrow> app" where
  "deliver_upload_signal w s (ProgressUpdate msg) = update_status msg False True s"
| "deliver_upload_signal w s (Finished objs) = on_thread_finished (handle_upload_finished w objs s)"
| "deliver_upload_signal w s (ErrorOccurred m) = on_thread_finished (handle_upload_error m s)"
| "deliver_upload_signal w s (FileProcessed b) = s"
| "deliver_upload_signal w s (ResultReady t) = s"

fun deliver_chat_signal :: "app \<Rightarrow> signal \<Rightarrow> app" where
  "deliver_chat_signal s (ResultReady t) = on_thread_finished (handle_ai_result t s)"
| "deliver_chat_signal s (ErrorOccurred m) = on_thread_finished (handle_ai_error m s)"
| "deliver_chat_signal s (Finished objs) = s"
| "deliver_chat_signal s (ProgressUpdate msg) = s"
| "deliver_chat_signal s (FileProcessed b) = s"

text \<open>The pending worker runs to its end and its signals are delivered.\<close>

definition settle :: "world \<Rightarrow> upload_env \<Rightarrow> chat_env \<Rightarrow> app \<Rightarrow> app option" where
  "settle w ue ce s =
     (case worker s of
        None \<Rightarrow> Some s
      | Some (AIChatWorker chat_session msg doc_ref) \<Rightarrow>
          Some (foldl deliver_chat_signal s (emitted (AIChatWorker_run ce chat_session msg doc_ref)))
      | Some (PDFUploadWorker file_paths basenames) \<Rightarrow>
          (case PDFUploadWorker_run ue file_paths basenames of
             None \<Rightarrow> None
           | Some st \<Rightarrow> Some (foldl (deliver_upload_signal w) s (emitted st))))"

text \<open>\<open>SimpleTutorApp.__init__\<close>: the fields, then the configuration file is loaded.\<close>

definition initial_app :: "config_file \<Rightarrow> app" where
  "initial_app f =
     \<lparr>config = \<lparr>api_key = None, model = None, language = None, temperature = None, files = None\<rparr>,
      local_file_paths = [], uploaded_files = [], ai_model = None,
      current_chat_session = None, current_chat_history = [], selected_doc_basename = None,
      is_ai_configured = False, is_processing = False, worker = None,
      combo = \<lparr>items = [], cur = -1\<rparr>, config_file = f, sessions_started = 0, trace = []\<rparr>"

definition startup :: "world \<Rightarrow> config_file \<Rightarrow> app" where
  "startup w f =
     (let s = show_chat_view w (update_ui_state w (load_config w (initial_app f))) in
      if truthy (api_key (config s)) then snd (initialize_ai w s)
      else update_status ''AI not configured. Please add API Key in Settings.'' True False s)"

section \<open>Sequences of controller operations\<close>

datatype operation =
    AddFiles "string list"
  | RemoveFiles "string list"
  | ClearAllFiles
  | UploadFinished "file_obj list"

fun apply_operation :: "world \<Rightarrow> app \<Rightarrow> operation \<Rightarrow> app" where
  "apply_operation w s (AddFiles file_paths) = add_files w file_paths s"
| "apply_operation w s (RemoveFiles basenames) = remove_files w basenames s"
| "apply_operation w s ClearAllFiles = clear_all_files w s"
| "apply_operation w s (UploadFinished objs) = handle_upload_finished w objs s"

text \<open>The states after each operation of a sequence; each operation meets its own world.\<close>

fun run_operations :: "app \<Rightarrow> (world \<times> operation) list \<Rightarrow> app list" where
  "run_operations s [] = []"
| "run_operations s ((w, opn) # rest) =
     apply_operation w s opn # run_operations (apply_operation w s opn) rest"

definition files_invariant :: "app \<Rightarrow> bool" where
  "files_invariant s = (set (dict_keys (uploaded_files s)) \<subseteq> set (dict_keys (local_file_paths s)))"

section \<open>Notions used to state the properties\<close>

text \<open>
  The entries an operation added to the trace; \<open>adds P s s'\<close>: the trace of \<open>s'\<close> is the trace
  of \<open>s\<close> followed by entries that all satisfy \<open>P\<close>.
\<close>

definition new_entries :: "app \<Rightarrow> app \<Rightarrow> entry list" where
  "new_entries s s' = drop (length (trace s)) (trace s')"

definition adds :: "(entry \<Rightarrow> bool) \<Rightarrow> app \<Rightarrow> app \<Rightarrow> bool" where
  "adds P s s' = (take (length (trace s)) (trace s') = trace s \<and> list_all P (new_entries s s'))"

fun is_delete :: "event \<Rightarrow> bool" where
  "is_delete (GenaiDeleteFile n ok) = True"
| "is_delete e = False"

fun is_warning :: "event \<Rightarrow> bool" where
  "is_warning (MsgBox Warning title text) = True"
| "is_warning e = False"

text \<open>The events of the user interface and of the chat: no write of the file, no call that configures the SDK or deletes a remote file.\<close>

fun ui_event :: "event \<Rightarrow> bool" where
  "ui_event ConfigSaved = False"
| "ui_event (GenaiConfigure k) = False"
| "ui_event (GenaiDeleteFile n ok) = False"
| "ui_event (Uncaught e) = False"
| "ui_event e = True"

definition ui :: "entry \<Rightarrow> bool" where
  "ui e = ui_event (fst e)"

definition warn :: "entry \<Rightarrow> bool" where
  "warn e = is_warning (fst e)"

text \<open>An entry that, if it is a call of \<open>genai.delete_file\<close>, was issued with no session and an empty history.\<close>

definition quiet :: "entry \<Rightarrow> bool" where
  "quiet e = (is_delete (fst e) \<longrightarrow> snd e = (None, []))"

text \<open>
  The state in which \<open>_update_ui_state\<close> looks at the combo: the two lists are shown, the
  upload button is set.
\<close>

definition refreshed :: "app \<Rightarrow> app" where
  "refreshed s =
     emit (UploadButtonEnabled (local_file_paths s \<noteq> [] \<and> is_ai_configured s))
       (emit (UpdateDocumentList (dict_keys (uploaded_files s)))
          ((emit (UpdateFileList (dict_keys (local_file_paths s))) s)
             \<lparr>combo := update_document_list (combo s) (dict_keys (uploaded_files s))\<rparr>))"

text \<open>
  The signals that end a run (\<open>finished\<close>, \<open>result_ready\<close>, \<open>error_occurred\<close>); \<open>progress_only st st'\<close>:
  from \<open>st\<close> to \<open>st'\<close> the worker emitted none of them.
\<close>

fun is_finished :: "signal \<Rightarrow> bool" where
  "is_finished (Finished objs) = True"
| "is_finished g = False"

fun is_terminal :: "signal \<Rightarrow> bool" where
  "is_terminal (Finished objs) = True"
| "is_terminal (ErrorOccurred m) = True"
| "is_terminal (ResultReady t) = True"
| "is_terminal g = False"

definition progress_only :: "worker_st \<Rightarrow> worker_st \<Rightarrow> bool" where
  "progress_only st st' = (\<forall>g \<in> set (emitted st'). is_terminal g \<longrightarrow> g \<in> set (emitted st))"

text \<open>Two states hold the same files and the same configuration.\<close>

definition same_files :: "app \<Rightarrow> app \<Rightarrow> bool" where
  "same_files s s' = (local_file_paths s' = local_file_paths s \<and> uploaded_files s' = uploaded_files s
     \<and> config s' = config s \<and> config_file s' = config_file s)"


text \<open>
  How a state \<open>r\<close> reached from \<open>s\<close> by the two chat-starting functions stands to \<open>s\<close>: model,
  configuration flag and config are those of \<open>s\<close>, and the session is the one of \<open>s\<close>, or none,
  or a session started since. \<open>is_configure\<close> recognises a call of \<open>genai.configure\<close>.
\<close>

definition session_step :: "app \<Rightarrow> app \<Rightarrow> bool" where
  "session_step s r =
     (ai_model r = ai_model s \<and> is_ai_configured r = is_ai_configured s \<and> config r = config s
      \<and> ((current_chat_session r = current_chat_session s \<and> sessions_started r = sessions_started s)
          \<or> (current_chat_session r = None \<and> sessions_started r = sessions_started s)
          \<or> (current_chat_session r = Some (sessions_started s) \<and> sessions_started r = Suc (sessions_started s))))"

fun is_configure :: "event \<Rightarrow> bool" where
  "is_configure (GenaiConfigure k) = True"
| "is_configure e = False"


section \<open>Concrete surroundings, used to run the model\<close>

definition demo_file :: file_obj where
  "demo_file = \<lparr>name = ''files/l1'', display_name = ''L1.pdf'', state = ACTIVE\<rparr>"

definition demo_json :: string where
  "demo_json = ''{'' @ [CHR 0x22] @ ''L1.pdf'' @ [CHR 0x22] @ '': '' @ [CHR 0x22] @ ''/docs/L1.pdf'' @ [CHR 0x22] @ ''}''"

definition demo_world :: world where
  "demo_world =
     \<lparr>w_gemini_imported = True,
      w_path_exists = (\<lambda>p. p = ''/docs/L1.pdf'' \<or> p = ''/backup/L1.pdf'' \<or> p = ''/docs/L2.pdf''),
      w_write_error = None,
      w_delete_error = (\<lambda>n. None),
      w_configure = (\<lambda>k m t. ConfigOk),
      w_start_chat_error = None,
      w_str_float = (\<lambda>t. if t = 6 / 10 then ''0.6'' else ''0.25''),
      w_float = (\<lambda>t. if t = ''0.6'' then Some (6 / 10) else if t = ''0.25'' then Some (1 / 4) else None),
      w_json_dumps = (\<lambda>d. if d = [] then ''{}'' else demo_json),
      w_json_loads = (\<lambda>t. if t = ''{}'' then Some []
                          else if t = demo_json then Some [(''L1.pdf'', ''/docs/L1.pdf'')]
                          else None),
      w_read_back = (\<lambda>f. None),
      w_set_order = (\<lambda>names. names)\<rparr>"

text \<open>A controller in the middle of a chat about an uploaded document, and a backend that refuses to delete.\<close>

definition chatting_app :: app where
  "chatting_app =
     (initial_app NoFile)
       \<lparr>local_file_paths := [(''L1.pdf'', ''/docs/L1.pdf''), (''L2.pdf'', ''/docs/L2.pdf'')],
        uploaded_files := [(''L1.pdf'', demo_file)],
        ai_model := Some \<lparr>gm_name = DEFAULT_MODEL, gm_temperature = DEFAULT_TEMPERATURE\<rparr>,
        current_chat_session := Some 0,
        current_chat_history := [\<lparr>role = ROLE_AI, parts = [''Welcome.'']\<rparr>],
        selected_doc_basename := Some ''L1.pdf'',
        is_ai_configured := True,
        combo := \<lparr>items = [''L1.pdf''], cur = 0\<rparr>,
        sessions_started := 1\<rparr>"

definition refusing_world :: world where
  "refusing_world = demo_world\<lparr>w_delete_error := (\<lambda>n. Some ''503 Service Unavailable'')\<rparr>"

text \<open>
  A batch of three files: the backend activates \<open>A.pdf\<close> and \<open>C.pdf\<close> at their first status
  check and keeps \<open>B.pdf\<close> in \<open>PROCESSING\<close> for ever. The set of the three names is iterated in
  the order \<open>A.pdf\<close>, \<open>B.pdf\<close>, \<open>C.pdf\<close>.
\<close>

definition batch_env :: upload_env where
  "batch_env =
     \<lparr>ue_path_exists = (\<lambda>p. True),
      ue_guess_type = (\<lambda>p. Some ''application/pdf''),
      ue_upload_file = (\<lambda>p d m. Inr \<lparr>name = ''files/'' @ d, display_name = d, state = PROCESSING\<rparr>),
      ue_get_file = (\<lambda>nm n. Inr \<lparr>name = nm, display_name = drop 6 nm,
                       state = (if nm = ''files/B.pdf'' then PROCESSING else ACTIVE)\<rparr>),
      ue_delete_file = (\<lambda>n. None),
      ue_stop_at = None\<rparr>"

definition batch_paths :: "string list" where
  "batch_paths = [''/d/A.pdf'', ''/d/B.pdf'', ''/d/C.pdf'']"

definition batch_names :: "string list" where
  "batch_names = [''A.pdf'', ''B.pdf'', ''C.pdf'']"

definition batch_world :: world where
  "batch_world = demo_world\<lparr>w_path_exists := (\<lambda>p. True)\<rparr>"

definition batch_app :: app where
  "batch_app =
     (initial_app NoFile)
       \<lparr>local_file_paths := [(''A.pdf'', ''/d/A.pdf''), (''B.pdf'', ''/d/B.pdf''), (''C.pdf'', ''/d/C.pdf'')],
        ai_model := Some \<lparr>gm_name = DEFAULT_MODEL, gm_temperature = DEFAULT_TEMPERATURE\<rparr>,
        is_ai_configured := True\<rparr>"

definition demo_chat_env :: chat_env where
  "demo_chat_env = \<lparr>ce_send_message = (\<lambda>m. Inr (Inr ''An answer.'')), ce_stop_at = None\<rparr>"



text \<open>
  A controller in the middle of a chat whose config holds a key, and two settings records
  for it: one that clears the API key, one that changes it.
\<close>

definition settings_app :: app where
  "settings_app =
     chatting_app\<lparr>config := \<lparr>api_key = Some ''secret'', model = Some DEFAULT_MODEL,
        language = Some DEFAULT_LANGUAGE, temperature = Some DEFAULT_TEMPERATURE, files = None\<rparr>\<rparr>"

definition cleared_key :: cfg where
  "cleared_key = \<lparr>api_key = Some [], model = Some DEFAULT_MODEL, language = Some DEFAULT_LANGUAGE,
     temperature = Some DEFAULT_TEMPERATURE, files = None\<rparr>"

definition other_key :: cfg where
  "other_key = \<lparr>api_key = Some ''other'', model = Some DEFAULT_MODEL, language = Some DEFAULT_LANGUAGE,
     temperature = Some DEFAULT_TEMPERATURE, files = None\<rparr>"




section \<open>Facts about the controller's helpers\<close>

lemma dict_keys_set: "set (dict_keys (dict_set d k v)) = insert k (set (dict_keys d))"
  by (auto simp add: dict_keys_def dict_set_def update_keys)

lemma dict_keys_del: "set (dict_keys (dict_del d k)) = set (dict_keys d) - {k}"
  by (auto simp add: dict_keys_def dict_del_def delete_keys)

lemma dict_get_None: "dict_get d k = None \<longleftrightarrow> \<not> dict_has d k"
  by (simp add: dict_get_def dict_has_def dict_keys_def map_of_eq_None_iff)

lemma emit_fields [simp]:
  "config (emit e s) = config s"
  "local_file_paths (emit e s) = local_file_paths s"
  "uploaded_files (emit e s) = uploaded_files s"
  "ai_model (emit e s) = ai_model s"
  "current_chat_session (emit e s) = current_chat_session s"
  "current_chat_history (emit e s) = current_chat_history s"
  "selected_doc_basename (emit e s) = selected_doc_basename s"
  "is_ai_configured (emit e s) = is_ai_configured s"
  "is_processing (emit e s) = is_processing s"
  "worker (emit e s) = worker s"
  "combo (emit e s) = combo s"
  "config_file (emit e s) = config_file s"
  "sessions_started (emit e s) = sessions_started s"
  "trace (emit e s) = trace s @ [(e, current_chat_session s, current_chat_history s)]"
  by (simp_all add: emit_def)

lemma update_status_fields [simp]:
  "config (update_status m e p s) = config s"
  "local_file_paths (update_status m e p s) = local_file_paths s"
  "uploaded_files (update_status m e p s) = uploaded_files s"
  "ai_model (update_status m e p s) = ai_model s"
  "current_chat_session (update_status m e p s) = current_chat_session s"
  "current_chat_history (update_status m e p s) = current_chat_history s"
  "selected_doc_basename (update_status m e p s) = selected_doc_basename s"
  "is_ai_configured (update_status m e p s) = is_ai_configured s"
  "is_processing (update_status m e p s) = p"
  "worker (update_status m e p s) = worker s"
  "combo (update_status m e p s) = combo s"
  "config_file (update_status m e p s) = config_file s"
  "sessions_started (update_status m e p s) = sessions_started s"
  "trace (update_status m e p s) = trace s @ [(Status m e p, current_chat_session s, current_chat_history s)]"
  by (simp_all add: update_status_def)

subsection \<open>Which operations touch the two file dicts\<close>

lemma start_ai_chat_turn_files: "same_files s (start_ai_chat_turn m i s)"
  by (simp add: same_files_def start_ai_chat_turn_def Let_def)

lemma start_new_chat_files: "same_files s (start_new_chat w sel s)"
  using start_ai_chat_turn_files
  by (auto simp add: same_files_def start_new_chat_def Let_def split: option.splits)

lemma chat_files:
  "same_files s (try_start_chat_session w s)"
  "same_files s (handle_document_selection_change w b s)"
proof (induction w s and w b s rule: try_start_chat_session_handle_document_selection_change.induct)
  case (1 w s)
  then show ?case
    using start_new_chat_files[of s w]
    by (subst try_start_chat_session.simps) (auto simp add: same_files_def split: list.splits)
next
  case (2 w b s)
  then show ?case
    by (subst handle_document_selection_change.simps)
       (auto simp add: same_files_def reject_selection_def select_document_def Let_def)
qed

lemma write_config_files:
  "local_file_paths (snd (write_config w s)) = local_file_paths s"
  "uploaded_files (snd (write_config w s)) = uploaded_files s"
  by (simp_all add: write_config_def split: option.splits)

lemma save_config_cases:
  "save_config w s = Inl (ValueError ''invalid interpolation syntax'')
   \<or> save_config w s = Inr (fst (write_config w s), snd (write_config w s))"
  by (simp add: save_config_def)

lemma uncaught_fields [simp]:
  "config (uncaught e s) = config s"
  "local_file_paths (uncaught e s) = local_file_paths s"
  "uploaded_files (uncaught e s) = uploaded_files s"
  "current_chat_session (uncaught e s) = current_chat_session s"
  "current_chat_history (uncaught e s) = current_chat_history s"
  "selected_doc_basename (uncaught e s) = selected_doc_basename s"
  "config_file (uncaught e s) = config_file s"
  "combo (uncaught e s) = combo s"
  "trace (uncaught e s) = trace s @ [(Uncaught e, current_chat_session s, current_chat_history s)]"
  by (simp_all add: uncaught_def)

lemma delete_loop_files:
  "local_file_paths (fst (delete_loop w fs (s, d, f))) = local_file_paths s \<and>
   uploaded_files (fst (delete_loop w fs (s, d, f))) = uploaded_files s"
  by (induction fs arbitrary: s d f) (auto split: option.splits)

lemma attempt_backend_deletion_files:
  "local_file_paths (attempt_backend_deletion w fs s) = local_file_paths s"
  "uploaded_files (attempt_backend_deletion w fs s) = uploaded_files s"
  using delete_loop_files[of w fs s 0 0]
  by (auto simp add: attempt_backend_deletion_def split: prod.splits)

lemma combo_changed_files: "same_files s (combo_changed w c s)"
  using chat_files(2)[of "s\<lparr>combo := c\<rparr>" w "combo_currentText c"]
  by (auto simp add: combo_changed_def same_files_def)

lemma update_ui_state_files: "same_files s (update_ui_state w s)"
proof -
  have "same_files s' (combo_changed w c s')" for c s' by (rule combo_changed_files)
  then show ?thesis
    unfolding update_ui_state_def Let_def same_files_def by auto
qed

lemma reset_chat_files:
  "local_file_paths (reset_chat s) = local_file_paths s"
  "uploaded_files (reset_chat s) = uploaded_files s"
  by (simp_all add: reset_chat_def)

subsection \<open>Each operation keeps the uploaded names among the local names\<close>

lemma add_files_loop_files:
  "uploaded_files (fst (add_files_loop w ps (s, n))) = uploaded_files s \<and>
   set (dict_keys (local_file_paths s)) \<subseteq> set (dict_keys (local_file_paths (fst (add_files_loop w ps (s, n)))))"
proof (induction ps arbitrary: s n)
  case Nil
  show ?case by simp
next
  case (Cons p ps)
  show ?case
    using Cons.IH[of "emit (MsgBox Warning ''File Not Found'' (''Skipping missing file: '' @ p)) s" n]
      Cons.IH[of "s\<lparr>local_file_paths := dict_set (local_file_paths s) (os_path_basename p) p\<rparr>" "n + 1"]
      Cons.IH[of "emit (MsgBox Warning ''Duplicate File'' (quoted (os_path_basename p) @ '' is already in the list.'')) s" n]
    by (auto simp add: dict_keys_set)
qed

lemma add_files_invariant: "files_invariant s \<Longrightarrow> files_invariant (add_files w ps s)"
proof -
  assume inv: "files_invariant s"
  obtain s1 added where l: "add_files_loop w ps (s, 0) = (s1, added)" by force
  from add_files_loop_files[of w ps s 0] l inv have "files_invariant s1"
    by (auto simp add: files_invariant_def)
  moreover have "same_files s' (update_ui_state w s')" for s' by (rule update_ui_state_files)
  ultimately show ?thesis
    using inv write_config_files[of w s1] save_config_cases[of w s1]
    by (auto simp add: add_files_def l files_invariant_def same_files_def case_prod_beta)
qed

lemma remove_files_loop_invariant:
  "files_invariant s \<Longrightarrow> files_invariant (fst (remove_files_loop bs (s, n, d)))"
proof (induction bs arbitrary: s n d)
  case Nil
  then show ?case by simp
next
  case (Cons b bs)
  have a: "files_invariant (s\<lparr>local_file_paths := dict_del (local_file_paths s) b,
              uploaded_files := dict_del (uploaded_files s) b\<rparr>)"
    using Cons.prems by (auto simp add: files_invariant_def dict_keys_del)
  have b: "dict_get (uploaded_files s) b = None \<Longrightarrow>
       files_invariant (s\<lparr>local_file_paths := dict_del (local_file_paths s) b\<rparr>)"
    using Cons.prems
    by (auto simp add: files_invariant_def dict_keys_del dict_get_None dict_has_def)
  show ?case
    using Cons.IH[OF a] Cons.IH[OF b] Cons.IH[OF Cons.prems]
    by (auto split: option.splits)
qed

lemma after_save_invariant:
  assumes "files_invariant s2"
    and k: "\<And>x. local_file_paths (k x) = local_file_paths x \<and> uploaded_files (k x) = uploaded_files x"
  shows "files_invariant
           (case save_config w s2 of
              Inl e \<Rightarrow> uncaught e s2
            | Inr (saved, s3) \<Rightarrow> k (update_ui_state w (attempt_backend_deletion w fs s3)))"
proof -
  have u: "same_files s' (update_ui_state w s')" for s' by (rule update_ui_state_files)
  show ?thesis
    using assms(1) save_config_cases[of w s2] u k
    by (auto simp add: files_invariant_def same_files_def case_prod_beta
          write_config_files attempt_backend_deletion_files)
qed

lemma remove_files_invariant: "files_invariant s \<Longrightarrow> files_invariant (remove_files w bs s)"
proof -
  assume inv: "files_invariant s"
  obtain s1 n d where l: "remove_files_loop bs (s, 0, []) = (s1, n, d)" by (metis prod_cases3)
  from remove_files_loop_invariant[OF inv, of bs 0 "[]"] l have i1: "files_invariant s1" by simp
  let ?s2 = "if (case selected_doc_basename s1 of None \<Rightarrow> False | Some b \<Rightarrow> b \<in> set bs)
             then reset_chat s1 else s1"
  let ?k = "\<lambda>s5. (let s6 = update_status (''Removed '' @ str_nat n @ '' files.'') False False s5
             in if local_file_paths s6 = [] then update_status ''No local files loaded.'' False False s6
                else if uploaded_files s6 = [] then
                  update_status ''No files uploaded to AI. Please Upload.'' False False s6
                else s6)"
  have i2: "files_invariant ?s2" using i1 by (simp add: files_invariant_def reset_chat_files)
  have k: "local_file_paths (?k x) = local_file_paths x \<and> uploaded_files (?k x) = uploaded_files x" for x
    by (simp add: Let_def)
  have r: "remove_files w bs s =
      (if is_processing s then emit (MsgBox Warning ''Busy'' ''Cannot remove files now.'') s
       else if n > 0 then
         (case save_config w ?s2 of
            Inl e \<Rightarrow> uncaught e ?s2
          | Inr (saved, s3) \<Rightarrow> ?k (update_ui_state w (attempt_backend_deletion w d s3)))
       else s1)"
    by (auto simp add: remove_files_def l Let_def split: sum.splits)
  show ?thesis
    unfolding r using inv i1 after_save_invariant[OF i2, of ?k w d] k
    by (auto simp add: files_invariant_def)
qed

lemma clear_all_files_invariant: "files_invariant s \<Longrightarrow> files_invariant (clear_all_files w s)"
proof -
  assume inv: "files_invariant s"
  let ?s1 = "reset_chat (s\<lparr>local_file_paths := [], uploaded_files := []\<rparr>)"
  have i1: "files_invariant ?s1" by (simp add: files_invariant_def reset_chat_files dict_keys_def)
  have r: "clear_all_files w s =
      (if is_processing s then emit (MsgBox Warning ''Busy'' ''Cannot clear files now.'') s
       else if local_file_paths s = [] then s
       else (case save_config w ?s1 of
               Inl e \<Rightarrow> uncaught e ?s1
             | Inr (saved, s2) \<Rightarrow>
                 update_status ''Cleared all files.'' False False
                   (update_ui_state w (attempt_backend_deletion w (dict_values (uploaded_files s)) s2))))"
    by (auto simp add: clear_all_files_def Let_def split: sum.splits)
  show ?thesis
    unfolding r
    using inv after_save_invariant[OF i1, of "update_status ''Cleared all files.'' False False" w
        "dict_values (uploaded_files s)"]
    by (auto simp add: files_invariant_def)
qed

lemma handle_upload_loop_invariant:
  "files_invariant s \<Longrightarrow> files_invariant (fst (handle_upload_loop w fs (s, n)))"
proof (induction fs arbitrary: s n)
  case Nil
  then show ?case by simp
next
  case (Cons f fs)
  have a: "dict_has (local_file_paths s) (display_name f) \<Longrightarrow>
    files_invariant (s\<lparr>uploaded_files := dict_set (uploaded_files s) (display_name f) f\<rparr>)"
    using Cons.prems
    by (auto simp add: files_invariant_def dict_has_def dict_keys_set)
  have b: "files_invariant (attempt_backend_deletion w [f] s)"
    using Cons.prems by (simp add: files_invariant_def attempt_backend_deletion_files)
  show ?case
    using Cons.IH[OF a] Cons.IH[OF b] by auto
qed

lemma handle_upload_finished_invariant:
  "files_invariant s \<Longrightarrow> files_invariant (handle_upload_finished w fs s)"
proof -
  assume inv: "files_invariant s"
  obtain s1 n where l: "handle_upload_loop w fs (s, 0) = (s1, n)" by force
  from handle_upload_loop_invariant[OF inv, of w fs 0] l have i1: "files_invariant s1" by simp
  have u: "same_files s' (update_ui_state w s')" for s' by (rule update_ui_state_files)
  have t: "same_files s' (try_start_chat_session w s')" for s' by (rule chat_files(1))
  have k: "files_invariant s' \<Longrightarrow> files_invariant (try_start_chat_session w (update_ui_state w s'))" for s'
    using u[of s'] t[of "update_ui_state w s'"] by (simp add: files_invariant_def same_files_def)
  show ?thesis
    unfolding handle_upload_finished_def l prod.case Let_def
    by (rule k) (use i1 in \<open>simp add: files_invariant_def\<close>)
qed

lemma apply_operation_invariant:
  "files_invariant s \<Longrightarrow> files_invariant (apply_operation w s opn)"
  by (cases opn)
     (simp_all add: add_files_invariant remove_files_invariant clear_all_files_invariant
        handle_upload_finished_invariant)

subsection \<open>What the operations add to the trace\<close>

lemma adds_refl: "trace s' = trace s \<Longrightarrow> adds P s s'"
  by (simp add: adds_def new_entries_def)

lemma adds_append: "trace s' = trace s @ t \<Longrightarrow> list_all P t \<Longrightarrow> adds P s s'"
  by (simp add: adds_def new_entries_def)

lemma adds_split: "adds P s s' \<Longrightarrow> \<exists>t. trace s' = trace s @ t \<and> list_all P t"
  unfolding adds_def new_entries_def by (metis append_take_drop_id)

lemma adds_trans: "adds P s s' \<Longrightarrow> adds P s' s'' \<Longrightarrow> adds P s s''"
proof -
  assume a: "adds P s s'" and b: "adds P s' s''"
  from adds_split[OF a] obtain t where t: "trace s' = trace s @ t" "list_all P t" by blast
  from adds_split[OF b] obtain u where u: "trace s'' = trace s' @ u" "list_all P u" by blast
  show ?thesis using t u by (simp add: adds_def new_entries_def)
qed

lemma adds_mono: "adds P s s' \<Longrightarrow> (\<And>e. P e \<Longrightarrow> Q e) \<Longrightarrow> adds Q s s'"
  by (auto simp add: adds_def list_all_iff)

lemma start_ai_chat_turn_ui: "adds ui s (start_ai_chat_turn m i s)"
  by (simp add: start_ai_chat_turn_def Let_def adds_def new_entries_def ui_def)

lemma start_new_chat_ui: "adds ui s (start_new_chat w sel s)"
proof (cases "w_start_chat_error w")
  case None
  have 1: "adds ui s (emit GenaiStartChat
             ((update_status (''Initializing chat for '' @ sel @ ''...'') False True s)
               \<lparr>current_chat_session := Some (sessions_started (update_status (''Initializing chat for '' @ sel @ ''...'') False True s)),
                 sessions_started := Suc (sessions_started (update_status (''Initializing chat for '' @ sel @ ''...'') False True s))\<rparr>))"
    by (simp add: adds_def new_entries_def ui_def)
  show ?thesis
    unfolding start_new_chat_def Let_def None option.case
    by (rule adds_trans[OF 1 start_ai_chat_turn_ui])
next
  case (Some e)
  show ?thesis
    unfolding start_new_chat_def Let_def Some option.case
    by (simp add: adds_def new_entries_def ui_def)
qed

lemma adds_combo_eq [simp]: "adds P (s\<lparr>combo := c\<rparr>) s' = adds P s s'"
  by (simp add: adds_def new_entries_def)

lemma chat_ui:
  "adds ui s (try_start_chat_session w s)"
  "adds ui s (handle_document_selection_change w b s)"
proof (induction w s and w b s rule: try_start_chat_session_handle_document_selection_change.induct)
  case (1 w s)
  have u: "adds ui s (update_status m e p s)" for m e p by (simp add: adds_def new_entries_def ui_def)
  from 1 show ?case
    by (subst try_start_chat_session.simps)
       (auto simp add: adds_refl u start_new_chat_ui split: list.splits)
next
  case (2 w b s)
  have r: "adds ui s (reject_selection b s)"
    by (simp add: reject_selection_def Let_def adds_def new_entries_def ui_def)
  have d: "adds ui s (select_document b s)"
    by (simp add: select_document_def adds_def new_entries_def ui_def)
  have t: "adds ui (select_document b s) x \<Longrightarrow> adds ui s x" for x
    by (rule adds_trans[OF d])
  from 2 show ?case
    by (subst handle_document_selection_change.simps) (auto simp add: adds_refl r intro: t)
qed

lemma combo_changed_ui: "adds ui s (combo_changed w c s)"
proof -
  have c: "adds ui s (s\<lparr>combo := c\<rparr>)" by (simp add: adds_def new_entries_def)
  show ?thesis
    unfolding combo_changed_def
    using c adds_trans[OF c chat_ui(2)[of "s\<lparr>combo := c\<rparr>" w]] by simp
qed

lemma update_ui_state_refreshed:
  "update_ui_state w s =
     (if truthy (selected_doc_basename s) \<and> str_opt (selected_doc_basename s) \<in> set (dict_keys (uploaded_files s)) then
        (if combo_currentText (combo (refreshed s)) \<noteq> str_opt (selected_doc_basename s)
         then combo_changed w (combo_setCurrentText (combo (refreshed s)) (str_opt (selected_doc_basename s))) (refreshed s)
         else refreshed s)
      else if dict_keys (uploaded_files s) \<noteq> [] then
        (if cur (combo (refreshed s)) = -1 then combo_changed w (combo_setCurrentIndex (combo (refreshed s)) 0) (refreshed s)
         else refreshed s)
      else refreshed s)"
  by (simp add: update_ui_state_def refreshed_def Let_def)

lemma refreshed_ui: "adds ui s (refreshed s)"
  by (simp add: refreshed_def adds_def new_entries_def ui_def)

lemma update_ui_state_ui: "adds ui s (update_ui_state w s)"
  unfolding update_ui_state_refreshed
  using refreshed_ui[of s] adds_trans[OF refreshed_ui combo_changed_ui, of s w]
  by simp

subsection \<open>The loop of \<open>add_files\<close>\<close>

lemma dict_get_set: "dict_get (dict_set d k v) b = (if b = k then Some v else dict_get d b)"
  by (simp add: dict_get_def dict_set_def update_conv')

lemma dict_has_get: "dict_has d k \<longleftrightarrow> dict_get d k \<noteq> None"
  by (simp add: dict_get_None)

lemma length_dict_set:
  "length (dict_set d k v) = (if dict_has d k then length d else Suc (length d))"
  by (induction d) (auto simp add: dict_set_def dict_has_def dict_keys_def)

text \<open>What the loop of add_files leaves in the registry, name by name.\<close>

lemma add_files_loop_get:
  "dict_get (local_file_paths (fst (add_files_loop w ps (s, n)))) b =
     (case dict_get (local_file_paths s) b of
        Some p \<Rightarrow> Some p
      | None \<Rightarrow> List.find (\<lambda>p. w_path_exists w p \<and> os_path_basename p = b) ps)"
proof (induction ps arbitrary: s n)
  case Nil
  show ?case by (simp split: option.splits)
next
  case (Cons p ps)
  show ?case
  proof (cases "w_path_exists w p")
    case False
    then show ?thesis by (simp add: Cons.IH split: option.splits)
  next
    case True
    show ?thesis
    proof (cases "dict_has (local_file_paths s) (os_path_basename p)")
      case True
      with \<open>w_path_exists w p\<close> show ?thesis
        by (auto simp add: Cons.IH dict_has_get split: option.splits)
    next
      case False
      with \<open>w_path_exists w p\<close> show ?thesis
        by (auto simp add: Cons.IH dict_get_set dict_has_get split: option.splits)
    qed
  qed
qed

lemma add_files_loop_count:
  "length (local_file_paths (fst (add_files_loop w ps (s, n)))) + n
     = length (local_file_paths s) + snd (add_files_loop w ps (s, n))"
proof (induction ps arbitrary: s n)
  case Nil
  show ?case by simp
next
  case (Cons p ps)
  show ?case
    using Cons.IH[of "emit (MsgBox Warning ''File Not Found'' (''Skipping missing file: '' @ p)) s" n]
      Cons.IH[of "s\<lparr>local_file_paths := dict_set (local_file_paths s) (os_path_basename p) p\<rparr>" "n + 1"]
      Cons.IH[of "emit (MsgBox Warning ''Duplicate File'' (quoted (os_path_basename p) @ '' is already in the list.'')) s" n]
    by (auto simp add: length_dict_set)
qed

lemma adds_local_eq [simp]: "adds P (s\<lparr>local_file_paths := c\<rparr>) s' = adds P s s'"
  by (simp add: adds_def new_entries_def)

lemma add_files_loop_rest:
  "adds warn s (fst (add_files_loop w ps (s, n)))
   \<and> config (fst (add_files_loop w ps (s, n))) = config s
   \<and> config_file (fst (add_files_loop w ps (s, n))) = config_file s
   \<and> combo (fst (add_files_loop w ps (s, n))) = combo s
   \<and> is_processing (fst (add_files_loop w ps (s, n))) = is_processing s"
proof (induction ps arbitrary: s n)
  case Nil
  show ?case by (simp add: adds_refl)
next
  case (Cons p ps)
  have e: "adds warn s (emit (MsgBox Warning t x) s)" for t x
    by (simp add: adds_def new_entries_def warn_def)
  show ?case
    using Cons.IH[of "emit (MsgBox Warning ''File Not Found'' (''Skipping missing file: '' @ p)) s" n]
      Cons.IH[of "s\<lparr>local_file_paths := dict_set (local_file_paths s) (os_path_basename p) p\<rparr>" "n + 1"]
      Cons.IH[of "emit (MsgBox Warning ''Duplicate File'' (quoted (os_path_basename p) @ '' is already in the list.'')) s" n]
    by (auto intro: adds_trans[OF e])
qed

lemma adds_entries: "adds P s s' \<Longrightarrow> list_all P (new_entries s s')"
  by (simp add: adds_def)

lemma adds_mem:
  "adds P s s' \<Longrightarrow> x \<in> set (new_entries s0 s) \<Longrightarrow> length (trace s0) \<le> length (trace s) \<Longrightarrow> x \<in> set (new_entries s0 s')"
proof -
  assume a: "adds P s s'" and x: "x \<in> set (new_entries s0 s)" and l: "length (trace s0) \<le> length (trace s)"
  from adds_split[OF a] obtain t where t: "trace s' = trace s @ t" by blast
  show ?thesis using x l by (simp add: new_entries_def t)
qed


subsection \<open>Removal: the loop, the backend deletion, the refresh\<close>

lemma find_index_from_range:
  "find_index_from i xs t = -1 \<or> (i \<le> find_index_from i xs t \<and> find_index_from i xs t < i + int (length xs))"
proof (induction xs arbitrary: i)
  case Nil
  show ?case by simp
next
  case (Cons x xs)
  from Cons.IH[of "i + 1"] show ?case by auto
qed

lemma update_document_list_cur:
  "names \<noteq> [] \<Longrightarrow> cur (update_document_list c names) \<noteq> -1"
proof -
  assume n: "names \<noteq> []"
  let ?c1 = "\<lparr>items = names, cur = 0\<rparr>"
  from find_index_from_range[of 0 names "combo_currentText c"]
  show ?thesis
    using n
    by (auto simp add: update_document_list_def Let_def combo_addItems_def combo_clear_def
          combo_findText_def combo_setCurrentIndex_def)
qed

lemma update_ui_state_unselected:
  "selected_doc_basename s = None \<Longrightarrow> update_ui_state w s = refreshed s"
  using update_document_list_cur[of "dict_keys (uploaded_files s)" "combo s"]
  by (auto simp add: update_ui_state_refreshed truthy_def refreshed_def)

lemma refreshed_fields [simp]:
  "current_chat_session (refreshed s) = current_chat_session s"
  "current_chat_history (refreshed s) = current_chat_history s"
  "selected_doc_basename (refreshed s) = selected_doc_basename s"
  "local_file_paths (refreshed s) = local_file_paths s"
  "uploaded_files (refreshed s) = uploaded_files s"
  by (simp_all add: refreshed_def)

lemma remove_files_loop_rest:
  "trace (fst (remove_files_loop bs (s, n, d))) = trace s
   \<and> current_chat_session (fst (remove_files_loop bs (s, n, d))) = current_chat_session s
   \<and> current_chat_history (fst (remove_files_loop bs (s, n, d))) = current_chat_history s
   \<and> selected_doc_basename (fst (remove_files_loop bs (s, n, d))) = selected_doc_basename s
   \<and> n \<le> fst (snd (remove_files_loop bs (s, n, d)))"
proof (induction bs arbitrary: s n d)
  case Nil
  show ?case by simp
next
  case (Cons b bs)
  show ?case
    using Cons.IH[of "s\<lparr>local_file_paths := dict_del (local_file_paths s) b,
                        uploaded_files := dict_del (uploaded_files s) b\<rparr>" "n + 1"]
      Cons.IH[of "s\<lparr>local_file_paths := dict_del (local_file_paths s) b\<rparr>" "n + 1"]
      Cons.IH[of s n]
    by (auto split: option.splits simp del: One_nat_def) (metis Suc_leD Suc_eq_plus1)+
qed

lemma dict_has_del: "dict_has (dict_del d k) b \<longleftrightarrow> dict_has d b \<and> b \<noteq> k"
  by (auto simp add: dict_has_def dict_keys_del)

lemma remove_files_loop_counts:
  "b \<in> set bs \<Longrightarrow> dict_has (local_file_paths s) b \<Longrightarrow> n < fst (snd (remove_files_loop bs (s, n, d)))"
proof (induction bs arbitrary: s n d)
  case Nil
  then show ?case by simp
next
  case (Cons a bs)
  show ?case
  proof (cases "dict_has (local_file_paths s) a")
    case True
    have "n + 1 \<le> fst (snd (remove_files_loop bs (s', n + 1, d')))" for s' d'
      using remove_files_loop_rest[of bs s' "n + 1" d'] by simp
    with True show ?thesis by (auto split: option.splits simp add: less_eq_Suc_le)
  next
    case False
    with Cons.prems have "b \<in> set bs" by auto
    from Cons.IH[OF this Cons.prems(2)] False show ?thesis by simp
  qed
qed

lemma remove_files_loop_gone:
  "b \<in> set bs \<or> \<not> dict_has (local_file_paths s) b \<Longrightarrow>
   \<not> dict_has (local_file_paths (fst (remove_files_loop bs (s, n, d)))) b"
proof (induction bs arbitrary: s n d)
  case Nil
  then show ?case by simp
next
  case (Cons a bs)
  have 1: "b \<in> set bs \<or> \<not> dict_has (dict_del (local_file_paths s) a) b"
    using Cons.prems by (auto simp add: dict_has_del)
  show ?case
  proof (cases "dict_has (local_file_paths s) a")
    case True
    then show ?thesis
      using Cons.IH[of "s\<lparr>local_file_paths := dict_del (local_file_paths s) a,
                        uploaded_files := dict_del (uploaded_files s) a\<rparr>" "n + 1"]
        Cons.IH[of "s\<lparr>local_file_paths := dict_del (local_file_paths s) a\<rparr>" "n + 1"] 1
      by (auto split: option.splits)
  next
    case False
    with Cons.prems have "b \<in> set bs \<or> \<not> dict_has (local_file_paths s) b" by auto
    from Cons.IH[OF this] False show ?thesis by simp
  qed
qed

lemma remove_files_loop_pair:
  "(dict_has (uploaded_files s) b \<longrightarrow> dict_has (local_file_paths s) b) \<Longrightarrow>
   (dict_has (uploaded_files (fst (remove_files_loop bs (s, n, d)))) b
      \<longrightarrow> dict_has (local_file_paths (fst (remove_files_loop bs (s, n, d)))) b)"
proof (induction bs arbitrary: s n d)
  case Nil
  then show ?case by simp
next
  case (Cons a bs)
  have 1: "dict_has (dict_del (uploaded_files s) a) b \<longrightarrow> dict_has (dict_del (local_file_paths s) a) b"
    using Cons.prems by (auto simp add: dict_has_del)
  have 2: "dict_get (uploaded_files s) a = None \<Longrightarrow>
           dict_has (uploaded_files s) b \<longrightarrow> dict_has (dict_del (local_file_paths s) a) b"
    using Cons.prems by (auto simp add: dict_has_del dict_get_None)
  show ?case
    using Cons.IH[of "s\<lparr>local_file_paths := dict_del (local_file_paths s) a,
                        uploaded_files := dict_del (uploaded_files s) a\<rparr>" "n + 1"]
      Cons.IH[of "s\<lparr>local_file_paths := dict_del (local_file_paths s) a\<rparr>" "n + 1"]
      Cons.IH[of s n] 1 2 Cons.prems
    by (auto split: option.splits)
qed

lemma delete_loop_quiet:
  "adds (\<lambda>e. snd e = (current_chat_session s, current_chat_history s)) s (fst (delete_loop w fs (s, k, f)))
   \<and> current_chat_session (fst (delete_loop w fs (s, k, f))) = current_chat_session s
   \<and> current_chat_history (fst (delete_loop w fs (s, k, f))) = current_chat_history s
   \<and> selected_doc_basename (fst (delete_loop w fs (s, k, f))) = selected_doc_basename s"
proof (induction fs arbitrary: s k f)
  case Nil
  show ?case by (simp add: adds_refl)
next
  case (Cons x fs)
  have e: "adds (\<lambda>e. snd e = (current_chat_session s, current_chat_history s)) s (emit ev s)" for ev
    by (simp add: adds_def new_entries_def)
  show ?case
    using Cons.IH[of "emit (GenaiDeleteFile (name x) True) s" "k + 1" f]
      Cons.IH[of "emit (GenaiDeleteFile (name x) False) s" k "f + 1"]
    by (auto split: option.splits intro: adds_trans[OF e])
qed

lemma attempt_backend_deletion_quiet:
  "adds (\<lambda>e. snd e = (current_chat_session s, current_chat_history s)) s (attempt_backend_deletion w fs s)
   \<and> current_chat_session (attempt_backend_deletion w fs s) = current_chat_session s
   \<and> current_chat_history (attempt_backend_deletion w fs s) = current_chat_history s
   \<and> selected_doc_basename (attempt_backend_deletion w fs s) = selected_doc_basename s"
proof -
  obtain s1 k f where l: "delete_loop w fs (s, 0, 0) = (s1, k, f)" by (metis prod_cases3)
  from delete_loop_quiet[of s w fs 0 0] l
  have q: "adds (\<lambda>e. snd e = (current_chat_session s, current_chat_history s)) s s1"
    "current_chat_session s1 = current_chat_session s" "current_chat_history s1 = current_chat_history s"
    "selected_doc_basename s1 = selected_doc_basename s" by simp_all
  have e: "adds (\<lambda>e. snd e = (current_chat_session s, current_chat_history s)) s1 (emit ev s1)" for ev
    by (simp add: adds_def new_entries_def q)
  show ?thesis
    using q adds_trans[OF q(1) e]
    by (auto simp add: attempt_backend_deletion_def l adds_refl)
qed

text \<open>The part common to remove_files and clear_all_files once the chat is reset.\<close>

lemma after_reset:
  assumes "current_chat_session s2 = None" "current_chat_history s2 = []" "selected_doc_basename s2 = None"
  shows "adds quiet s2 (update_ui_state w (attempt_backend_deletion w fs (snd (write_config w s2))))
       \<and> current_chat_session (update_ui_state w (attempt_backend_deletion w fs (snd (write_config w s2)))) = None
       \<and> current_chat_history (update_ui_state w (attempt_backend_deletion w fs (snd (write_config w s2)))) = []
       \<and> selected_doc_basename (update_ui_state w (attempt_backend_deletion w fs (snd (write_config w s2)))) = None
       \<and> local_file_paths (update_ui_state w (attempt_backend_deletion w fs (snd (write_config w s2)))) = local_file_paths s2
       \<and> uploaded_files (update_ui_state w (attempt_backend_deletion w fs (snd (write_config w s2)))) = uploaded_files s2"
proof -
  let ?s3 = "snd (write_config w s2)"
  let ?s4 = "attempt_backend_deletion w fs ?s3"
  have f3: "current_chat_session ?s3 = None" "current_chat_history ?s3 = []" "selected_doc_basename ?s3 = None"
    using assms by (simp_all add: write_config_def split: option.splits)
  have a3: "adds quiet s2 ?s3"
    by (simp add: write_config_def adds_def new_entries_def quiet_def split: option.splits)
  from attempt_backend_deletion_quiet[of ?s3 w fs]
  have q4: "adds (\<lambda>e. snd e = (None, [])) ?s3 ?s4" and f4: "current_chat_session ?s4 = None"
    "current_chat_history ?s4 = []" "selected_doc_basename ?s4 = None"
    by (simp_all add: f3)
  have a4: "adds quiet ?s3 ?s4" by (rule adds_mono[OF q4]) (simp add: quiet_def)
  have u: "update_ui_state w ?s4 = refreshed ?s4" by (rule update_ui_state_unselected[OF f4(3)])
  have a5: "adds quiet ?s4 (refreshed ?s4)"
    by (rule adds_mono[OF refreshed_ui]) (auto simp add: quiet_def ui_def elim: is_delete.elims)
  show ?thesis
    using adds_trans[OF adds_trans[OF a3 a4] a5] f4
    by (simp add: u write_config_files attempt_backend_deletion_files)
qed

text \<open>The same, whether \<open>save_config\<close> returns or raises.\<close>

lemma after_reset_saved:
  assumes "current_chat_session s2 = None" "current_chat_history s2 = []" "selected_doc_basename s2 = None"
    and k: "\<And>x. adds quiet x (k x) \<and> current_chat_session (k x) = current_chat_session x
              \<and> current_chat_history (k x) = current_chat_history x
              \<and> selected_doc_basename (k x) = selected_doc_basename x
              \<and> local_file_paths (k x) = local_file_paths x \<and> uploaded_files (k x) = uploaded_files x"
  shows "adds quiet s2 (case save_config w s2 of
              Inl e \<Rightarrow> uncaught e s2
            | Inr (saved, s3) \<Rightarrow> k (update_ui_state w (attempt_backend_deletion w fs s3)))
       \<and> current_chat_session (case save_config w s2 of
              Inl e \<Rightarrow> uncaught e s2
            | Inr (saved, s3) \<Rightarrow> k (update_ui_state w (attempt_backend_deletion w fs s3))) = None
       \<and> current_chat_history (case save_config w s2 of
              Inl e \<Rightarrow> uncaught e s2
            | Inr (saved, s3) \<Rightarrow> k (update_ui_state w (attempt_backend_deletion w fs s3))) = []
       \<and> selected_doc_basename (case save_config w s2 of
              Inl e \<Rightarrow> uncaught e s2
            | Inr (saved, s3) \<Rightarrow> k (update_ui_state w (attempt_backend_deletion w fs s3))) = None
       \<and> local_file_paths (case save_config w s2 of
              Inl e \<Rightarrow> uncaught e s2
            | Inr (saved, s3) \<Rightarrow> k (update_ui_state w (attempt_backend_deletion w fs s3))) = local_file_paths s2
       \<and> uploaded_files (case save_config w s2 of
              Inl e \<Rightarrow> uncaught e s2
            | Inr (saved, s3) \<Rightarrow> k (update_ui_state w (attempt_backend_deletion w fs s3))) = uploaded_files s2"
proof (cases "save_config w s2")
  case (Inl e)
  have "adds quiet s2 (uncaught e s2)"
    by (simp add: adds_def new_entries_def quiet_def)
  with assms(1-3) show ?thesis by (simp add: Inl)
next
  case (Inr p)
  with save_config_cases[of w s2] have p: "p = (fst (write_config w s2), snd (write_config w s2))" by simp
  let ?s5 = "update_ui_state w (attempt_backend_deletion w fs (snd (write_config w s2)))"
  note ar = after_reset[OF assms(1-3), of w fs]
  from ar k[of ?s5] have "adds quiet s2 (k ?s5)" using adds_trans by blast
  with ar k[of ?s5] show ?thesis by (simp add: Inr p case_prod_beta)
qed

lemma adds_status: "adds quiet s s' \<Longrightarrow> adds quiet s (update_status m e p s')"
proof -
  assume a: "adds quiet s s'"
  have "adds quiet s' (update_status m e p s')" by (simp add: adds_def new_entries_def quiet_def)
  with a show ?thesis by (rule adds_trans)
qed


subsection \<open>The check of \<open>ConfigParser\<close>\<close>





subsection \<open>The session across the chat-starting functions\<close>

lemma start_new_chat_step:
  "current_chat_session s = None \<Longrightarrow> session_step s (start_new_chat w sel s)"
  by (auto simp add: session_step_def start_new_chat_def start_ai_chat_turn_def Let_def split: option.splits)

lemma chat_session_step:
  "session_step s (try_start_chat_session w s)"
  "session_step s (handle_document_selection_change w b s)"
proof (induction w s and w b s rule: try_start_chat_session_handle_document_selection_change.induct)
  case (1 w s)
  have c: "session_step (s\<lparr>combo := c\<rparr>) x \<Longrightarrow> session_step s x" for c x
    by (simp add: session_step_def)
  have r: "session_step s s" by (simp add: session_step_def)
  have rc: "session_step s (s\<lparr>combo := c\<rparr>)" for c by (simp add: session_step_def)
  have u: "session_step s (update_status m e p s)" for m e p by (simp add: session_step_def)
  from 1 show ?case
    by (subst try_start_chat_session.simps)
       (auto simp add: r rc u start_new_chat_step split: list.splits intro: c)
next
  case (2 w b s)
  have r: "session_step s s" by (simp add: session_step_def)
  have rj: "session_step s (reject_selection b s)"
    by (simp add: session_step_def reject_selection_def Let_def)
  have d: "session_step (select_document b s) x \<Longrightarrow> session_step s x" for x
    by (auto simp add: session_step_def select_document_def)
  from 2 show ?case
    by (subst handle_document_selection_change.simps) (auto simp add: r rj intro: d)
qed

subsection \<open>The turns of a chat\<close>







section \<open>Facts about the workers\<close>

lemma progress_only_refl: "emitted st' = emitted st \<Longrightarrow> progress_only st st'"
  by (simp add: progress_only_def)

lemma progress_only_trans: "progress_only a b \<Longrightarrow> progress_only b c \<Longrightarrow> progress_only a c"
  by (auto simp add: progress_only_def)

lemma progress_only_emit: "\<not> is_terminal g \<Longrightarrow> progress_only st (emit_signal g st)"
  by (auto simp add: progress_only_def emit_signal_def)

lemma tick_emitted [simp]: "emitted (tick c st) = emitted st"
  by (simp add: tick_def)

lemma sleep_emitted [simp]: "emitted (sleep d st) = emitted st"
  by (simp add: sleep_def)

lemma tested_fields [simp]:
  "emitted (tested st) = emitted st" "clock (tested st) = clock st"
  "temp_uploaded_references (tested st) = temp_uploaded_references st"
  "ticks (tested st) = Suc (ticks st)"
  by (simp_all add: tested_def)

lemma tick_clock [simp]: "clock (tick c st) = clock st"
  by (simp add: tick_def)

lemma sleep_clock [simp]: "clock (sleep d st) = clock st + d"
  by (simp add: sleep_def)

lemma wait_loop_returns_aux:
  "0 < L \<Longrightarrow> L \<le> 15 \<Longrightarrow> L \<le> wait_time \<Longrightarrow> max_wait - (clock st - start_time) \<le> of_nat k * L \<Longrightarrow>
   \<exists>e st'. wait_loop env filename start_time wait_time n uploaded_file st = Some (e, st')
            \<and> progress_only st st'"
proof (induction k arbitrary: wait_time n uploaded_file st)
  case 0
  then have "\<not> clock st - start_time < max_wait" by simp
  then show ?case by (subst wait_loop.simps) (simp add: progress_only_refl)
next
  case (Suc k)
  have step: "\<exists>e st''. wait_loop env filename start_time wt' n' f' (sleep wait_time st') = Some (e, st'')
                \<and> progress_only st st''"
    if "L \<le> wt'" "clock st' = clock st" "emitted st' = emitted st" for wt' n' f' st'
  proof -
    have "max_wait - (clock (sleep wait_time st') - start_time) \<le> of_nat k * L"
      using Suc.prems that(2) by (simp add: algebra_simps)
    from Suc.IH[OF Suc.prems(1) Suc.prems(2) that(1) this, of n' f']
    obtain e st'' where r: "wait_loop env filename start_time wt' n' f' (sleep wait_time st') = Some (e, st'')"
      "progress_only (sleep wait_time st') st''" by blast
    have "progress_only st (sleep wait_time st')" by (simp add: progress_only_refl that(3))
    with r show ?thesis using progress_only_trans by blast
  qed
  have w': "L \<le> min (wait_time * (3 / 2)) 15"
    using Suc.prems by (auto simp add: min_def)
  have fp: "progress_only st ((emit_signal (FileProcessed filename) (tick c (tested st)))\<lparr>temp_uploaded_references := x\<rparr>)" for c x
    by (simp add: progress_only_def emit_signal_def)
  show ?case
    apply (subst wait_loop.simps)
    using step[OF Suc.prems(3), of "tick (GetFile (name uploaded_file)) (tested st)"]
          step[OF w', of "tested (tick (GetFile (name uploaded_file)) (tested st))"]
    by (auto simp add: progress_only_refl fp split: sum.splits file_state.splits)
qed

lemma wait_loop_returns:
  "\<exists>e st'. wait_loop env filename start_time 5 n uploaded_file st = Some (e, st') \<and> progress_only st st'"
proof -
  obtain k :: nat where "max_wait - (clock st - start_time) < of_nat k * 5"
    using ex_less_of_nat_mult[of "5::rat" "max_wait - (clock st - start_time)"] by auto
  then have "max_wait - (clock st - start_time) \<le> of_nat k * 5" by simp
  from wait_loop_returns_aux[of 5 5 st start_time k env filename n uploaded_file, OF _ _ _ this]
  show ?thesis by simp
qed

lemma upload_loop_returns:
  "\<exists>e st'. upload_loop env basenames i file_paths st = Some (e, st') \<and> progress_only st st'"
proof (induction file_paths arbitrary: i st)
  case Nil
  show ?case by (simp add: progress_only_refl)
next
  case (Cons file_path rest)
  let ?filename = "basenames ! i"
  let ?st1 = "emit_signal (ProgressUpdate (''Uploading '' @ ?filename @ ''...'')) (tested st)"
  have p0: "progress_only st (tested st)" by (simp add: progress_only_refl)
  have p1: "progress_only st ?st1"
    by (rule progress_only_trans[OF p0]) (simp add: progress_only_emit)
  have p2: "progress_only st (tick c ?st1)" for c
    by (rule progress_only_trans[OF p1]) (simp add: progress_only_refl)
  have p2t: "progress_only st (tested (tick c ?st1))" for c
    by (rule progress_only_trans[OF p2[of c]]) (simp add: progress_only_refl)
  have p3: "progress_only st (emit_signal (ProgressUpdate m) (tested (tick c ?st1)))" for c m
    by (rule progress_only_trans[OF p2t[of c]]) (simp add: progress_only_emit)
  show ?case
  proof (cases "is_running (ue_stop_at env) st \<and> i < length basenames \<and> ue_path_exists env file_path")
    case False
    then show ?thesis using p0 p1 by (auto simp add: Let_def)
  next
    case True
    let ?mime = "case ue_guess_type env file_path of None \<Rightarrow> ''application/octet-stream''
                    | Some m \<Rightarrow> if m = [] then ''application/octet-stream'' else m"
    show ?thesis
    proof (cases "ue_upload_file env file_path ?filename ?mime")
      case (Inl e)
      with True show ?thesis using p2 by (auto simp add: Let_def)
    next
      case (Inr uploaded_file)
      let ?st2 = "tick (UploadFile file_path ?filename ?mime) ?st1"
      let ?st2' = "emit_signal (ProgressUpdate (''Processing '' @ ?filename @ ''...'')) (tested ?st2)"
      from wait_loop_returns[of env ?filename "clock ?st2" 0 uploaded_file ?st2']
      obtain e st3 where w: "wait_loop env ?filename (clock ?st2) 5 0 uploaded_file ?st2' = Some (e, st3)"
        and p: "progress_only ?st2' st3" by blast
      have p4: "progress_only st st3" by (rule progress_only_trans[OF p3 p])
      have p4t: "progress_only st (tested st3)"
        by (rule progress_only_trans[OF p4]) (simp add: progress_only_refl)
      from Cons.IH[of "Suc i" "tested st3"] obtain e' st' where
        r: "upload_loop env basenames (Suc i) rest (tested st3) = Some (e', st')"
           "progress_only (tested st3) st'" by blast
      have p5: "progress_only st st'" by (rule progress_only_trans[OF p4t r(2)])
      show ?thesis
        using True Inr w p2t p4 p4t r(1) p5
        by (cases e) (auto simp add: Let_def)
    qed
  qed
qed

section \<open>The claims\<close>

text \<open>
  C1. Along every sequence of the controller operations \<open>add_files\<close>, \<open>remove_files\<close>,
  \<open>clear_all_files\<close> and \<open>_handle_upload_finished\<close>, started in a state where the names of
  \<open>uploaded_files\<close> are among the names of \<open>local_file_paths\<close>, every state reached after an
  operation has that property again, whatever the file system and the backend answer.
\<close>

theorem files_invariant_preserved:
  "files_invariant s \<Longrightarrow> list_all files_invariant (run_operations s ops)"
proof (induction ops arbitrary: s)
  case Nil
  show ?case by simp
next
  case (Cons a ops)
  obtain w opn where a: "a = (w, opn)" by force
  from Cons.prems have "files_invariant (apply_operation w s opn)" by (rule apply_operation_invariant)
  with Cons.IH[of "apply_operation w s opn"] show ?case by (simp add: a)
qed

theorem files_invariant_preserved_witness:
  "files_invariant (initial_app NoFile) \<and>
   list_all files_invariant
     (run_operations (initial_app NoFile)
        [(demo_world, AddFiles [''/docs/L1.pdf'', ''/docs/gone.pdf'']),
         (demo_world, UploadFinished [demo_file]),
         (demo_world, RemoveFiles [''L1.pdf'']),
         (demo_world, AddFiles [''/docs/L1.pdf'']),
         (demo_world, ClearAllFiles)])"
proof -
  have h: "files_invariant (initial_app NoFile)"
    by (simp add: files_invariant_def initial_app_def dict_keys_def)
  show ?thesis by (rule conjI [OF h files_invariant_preserved [OF h]])
qed

text \<open>
  C7. While a background task is in flight (\<open>is_processing\<close>), \<open>handle_user_message\<close> only
  shows the warning box titled Busy: the history, the session and the worker are as
  before, no user message is appended and no worker is started.
\<close>

theorem handle_user_message_busy:
  assumes "is_processing s"
  shows "handle_user_message user_text s =
           emit (MsgBox Warning ''Busy'' (''Please wait for the AI'' @ apostrophe @ ''s response.'')) s
         \<and> current_chat_history (handle_user_message user_text s) = current_chat_history s
         \<and> current_chat_session (handle_user_message user_text s) = current_chat_session s
         \<and> worker (handle_user_message user_text s) = worker s
         \<and> is_processing (handle_user_message user_text s)"
  using assms by (simp add: handle_user_message_def)

theorem handle_user_message_busy_witness:
  "is_processing ((initial_app NoFile)\<lparr>is_processing := True\<rparr>)
   \<and> current_chat_history (handle_user_message ''What is edge detection?''
        ((initial_app NoFile)\<lparr>is_processing := True\<rparr>)) = []
   \<and> worker (handle_user_message ''What is edge detection?''
        ((initial_app NoFile)\<lparr>is_processing := True\<rparr>)) = None"
  using handle_user_message_busy [of "(initial_app NoFile)\<lparr>is_processing := True\<rparr>" "''What is edge detection?''"]
  by (simp add: initial_app_def)

text \<open>
  C8. \<open>handle_document_selection_change\<close> called with a name that is not a key of
  \<open>uploaded_files\<close> leaves the controller's state as it was: the selected name, the
  session, the history, the worker, the busy flag, the files, the configuration and the
  model are unchanged.
\<close>

theorem selection_not_uploaded_rejected:
  assumes "\<not> dict_has (uploaded_files s) b"
  shows "selected_doc_basename (handle_document_selection_change w b s) = selected_doc_basename s
         \<and> current_chat_session (handle_document_selection_change w b s) = current_chat_session s
         \<and> current_chat_history (handle_document_selection_change w b s) = current_chat_history s
         \<and> worker (handle_document_selection_change w b s) = worker s
         \<and> is_processing (handle_document_selection_change w b s) = is_processing s
         \<and> local_file_paths (handle_document_selection_change w b s) = local_file_paths s
         \<and> uploaded_files (handle_document_selection_change w b s) = uploaded_files s
         \<and> config (handle_document_selection_change w b s) = config s
         \<and> ai_model (handle_document_selection_change w b s) = ai_model s
         \<and> is_ai_configured (handle_document_selection_change w b s) = is_ai_configured s
         \<and> sessions_started (handle_document_selection_change w b s) = sessions_started s"
  using assms
  by (subst (1 2 3 4 5 6 7 8 9 10 11) handle_document_selection_change.simps)
     (simp add: reject_selection_def Let_def)

theorem selection_not_uploaded_rejected_witness:
  "\<not> dict_has (uploaded_files (initial_app NoFile)) ''ghost.pdf''
   \<and> selected_doc_basename (handle_document_selection_change demo_world ''ghost.pdf'' (initial_app NoFile)) = None
   \<and> current_chat_session (handle_document_selection_change demo_world ''ghost.pdf'' (initial_app NoFile)) = None
   \<and> current_chat_history (handle_document_selection_change demo_world ''ghost.pdf'' (initial_app NoFile)) = []"
proof -
  have h: "\<not> dict_has (uploaded_files (initial_app NoFile)) ''ghost.pdf''"
    by (simp add: dict_has_def dict_keys_def initial_app_def)
  from selection_not_uploaded_rejected [OF h, of demo_world] h show ?thesis
    by (simp add: initial_app_def)
qed

text \<open>
  C3. When \<open>remove_files\<close> or \<open>clear_all_files\<close> (not busy) removes the name \<open>b\<close> that is selected,
  every call of \<open>genai.delete_file\<close> the operation issues is issued with
  \<open>current_chat_session = None\<close> and an empty \<open>current_chat_history\<close>; and whatever the backend
  answers to the deletions, the operation ends with no session, no history, no selection
  and \<open>b\<close> in neither dict.
\<close>

theorem removal_resets_chat_before_backend_deletion:
  assumes "\<not> is_processing s" and "selected_doc_basename s = Some b" and "dict_has (local_file_paths s) b"
  shows "(b \<in> set basenames_to_remove \<longrightarrow>
            current_chat_session (remove_files w basenames_to_remove s) = None
            \<and> current_chat_history (remove_files w basenames_to_remove s) = []
            \<and> selected_doc_basename (remove_files w basenames_to_remove s) = None
            \<and> \<not> dict_has (local_file_paths (remove_files w basenames_to_remove s)) b
            \<and> \<not> dict_has (uploaded_files (remove_files w basenames_to_remove s)) b
            \<and> list_all (\<lambda>e. is_delete (fst e) \<longrightarrow> snd e = (None, []))
                 (new_entries s (remove_files w basenames_to_remove s)))
         \<and> current_chat_session (clear_all_files w s) = None
         \<and> current_chat_history (clear_all_files w s) = []
         \<and> selected_doc_basename (clear_all_files w s) = None
         \<and> local_file_paths (clear_all_files w s) = []
         \<and> uploaded_files (clear_all_files w s) = []
         \<and> list_all (\<lambda>e. is_delete (fst e) \<longrightarrow> snd e = (None, []))
              (new_entries s (clear_all_files w s))"
proof -
  have st: "adds quiet x (update_status m e p x)" for x m e p
    by (simp add: adds_def new_entries_def quiet_def)
  have rem: "current_chat_session (remove_files w bs s) = None
            \<and> current_chat_history (remove_files w bs s) = []
            \<and> selected_doc_basename (remove_files w bs s) = None
            \<and> \<not> dict_has (local_file_paths (remove_files w bs s)) b
            \<and> \<not> dict_has (uploaded_files (remove_files w bs s)) b
            \<and> adds quiet s (remove_files w bs s)" if bs: "b \<in> set bs" for bs
  proof -
    obtain s1 n d where l: "remove_files_loop bs (s, 0, []) = (s1, n, d)" by (metis prod_cases3)
    from remove_files_loop_rest[of bs s 0 "[]"] l
    have f1: "trace s1 = trace s" "selected_doc_basename s1 = Some b" by (simp_all add: assms)
    from remove_files_loop_counts[OF bs assms(3), of 0 "[]"] l have n: "n > 0" by simp
    from remove_files_loop_gone[of b bs s 0 "[]"] bs l have g1: "\<not> dict_has (local_file_paths s1) b" by simp
    from remove_files_loop_pair[of s b bs 0 "[]"] assms(3) l g1
    have g2: "\<not> dict_has (uploaded_files s1) b" by auto
    let ?s2 = "reset_chat s1"
    let ?k = "\<lambda>s5. (let s6 = update_status (''Removed '' @ str_nat n @ '' files.'') False False s5
             in if local_file_paths s6 = [] then update_status ''No local files loaded.'' False False s6
                else if uploaded_files s6 = [] then
                  update_status ''No files uploaded to AI. Please Upload.'' False False s6
                else s6)"
    have f2: "current_chat_session ?s2 = None" "current_chat_history ?s2 = []" "selected_doc_basename ?s2 = None"
      by (simp_all add: reset_chat_def)
    have a2: "adds quiet s ?s2" by (simp add: reset_chat_def adds_def new_entries_def f1 quiet_def)
    have k: "adds quiet x (?k x) \<and> current_chat_session (?k x) = current_chat_session x
              \<and> current_chat_history (?k x) = current_chat_history x
              \<and> selected_doc_basename (?k x) = selected_doc_basename x
              \<and> local_file_paths (?k x) = local_file_paths x \<and> uploaded_files (?k x) = uploaded_files x" for x
      using st[of x] adds_trans[OF st st, of x]
      by (simp add: Let_def)
    have r: "remove_files w bs s =
         (case save_config w ?s2 of
            Inl e \<Rightarrow> uncaught e ?s2
          | Inr (saved, s3) \<Rightarrow> ?k (update_ui_state w (attempt_backend_deletion w d s3)))"
      using assms(1) n bs f1 by (auto simp add: remove_files_def l Let_def split: sum.splits)
    note ar = after_reset_saved[OF f2, of ?k w d, OF k]
    from ar have "adds quiet s (remove_files w bs s)"
      unfolding r using adds_trans[OF a2] by blast
    with ar g1 g2 show ?thesis
      unfolding r by (simp add: reset_chat_files)
  qed
  have clr: "current_chat_session (clear_all_files w s) = None
         \<and> current_chat_history (clear_all_files w s) = []
         \<and> selected_doc_basename (clear_all_files w s) = None
         \<and> local_file_paths (clear_all_files w s) = []
         \<and> uploaded_files (clear_all_files w s) = []
         \<and> adds quiet s (clear_all_files w s)"
  proof -
    from assms(3) have ne: "local_file_paths s \<noteq> []" by (auto simp add: dict_has_def dict_keys_def)
    let ?s2 = "reset_chat (s\<lparr>local_file_paths := [], uploaded_files := []\<rparr>)"
    let ?k = "update_status ''Cleared all files.'' False False"
    have f2: "current_chat_session ?s2 = None" "current_chat_history ?s2 = []" "selected_doc_basename ?s2 = None"
      by (simp_all add: reset_chat_def)
    have a2: "adds quiet s ?s2" by (simp add: reset_chat_def adds_def new_entries_def quiet_def)
    have k: "adds quiet x (?k x) \<and> current_chat_session (?k x) = current_chat_session x
              \<and> current_chat_history (?k x) = current_chat_history x
              \<and> selected_doc_basename (?k x) = selected_doc_basename x
              \<and> local_file_paths (?k x) = local_file_paths x \<and> uploaded_files (?k x) = uploaded_files x" for x
      using st[of x] by simp
    have r: "clear_all_files w s =
         (case save_config w ?s2 of
            Inl e \<Rightarrow> uncaught e ?s2
          | Inr (saved, s3) \<Rightarrow>
              ?k (update_ui_state w (attempt_backend_deletion w (dict_values (uploaded_files s)) s3)))"
      using assms(1) ne by (auto simp add: clear_all_files_def Let_def split: sum.splits)
    note ar = after_reset_saved[OF f2, of ?k w "dict_values (uploaded_files s)", OF k]
    from ar have "adds quiet s (clear_all_files w s)"
      unfolding r using adds_trans[OF a2] by blast
    with ar show ?thesis
      unfolding r by (simp add: reset_chat_files)
  qed
  show ?thesis
    using rem[of basenames_to_remove] clr adds_entries[of quiet s]
    by (auto simp add: quiet_def[abs_def])
qed

theorem removal_resets_chat_before_backend_deletion_witness:
  "\<not> is_processing chatting_app \<and> selected_doc_basename chatting_app = Some ''L1.pdf''
   \<and> dict_has (local_file_paths chatting_app) ''L1.pdf''
   \<and> current_chat_session chatting_app = Some 0
   \<and> current_chat_session (remove_files refusing_world [''L1.pdf''] chatting_app) = None
   \<and> current_chat_history (remove_files refusing_world [''L1.pdf''] chatting_app) = []
   \<and> \<not> dict_has (uploaded_files (remove_files refusing_world [''L1.pdf''] chatting_app)) ''L1.pdf''
   \<and> list_all (\<lambda>e. is_delete (fst e) \<longrightarrow> snd e = (None, []))
        (new_entries chatting_app (remove_files refusing_world [''L1.pdf''] chatting_app))
   \<and> current_chat_session (clear_all_files refusing_world chatting_app) = None"
proof -
  have h: "\<not> is_processing chatting_app" "selected_doc_basename chatting_app = Some ''L1.pdf''"
    "dict_has (local_file_paths chatting_app) ''L1.pdf''"
    by (simp_all add: chatting_app_def initial_app_def dict_has_def dict_keys_def)
  have k: "current_chat_session chatting_app = Some 0"
    by (simp add: chatting_app_def initial_app_def)
  from removal_resets_chat_before_backend_deletion [OF h, of "[''L1.pdf'']" refusing_world] h k
  show ?thesis by simp
qed

text \<open>
  C10. \<open>add_files\<close> (not busy) leaves under each name the path the registry already had, and
  under a new name the first path of the list that exists and has that name: a missing
  path is skipped, a name already present is not overwritten, and the entries after it are
  still processed. When no name was added, the configuration file and the combo are as
  before and only warning boxes were shown; when a name was added, the registry is
  written to the configuration file (if the write succeeds) and the file list is shown
  again.
\<close>

theorem add_files_registry:
  assumes "\<not> is_processing s"
  shows "dict_get (local_file_paths (add_files w file_paths s)) b =
           (case dict_get (local_file_paths s) b of
              Some p \<Rightarrow> Some p
            | None \<Rightarrow> List.find (\<lambda>p. w_path_exists w p \<and> os_path_basename p = b) file_paths)
         \<and> length (local_file_paths s) \<le> length (local_file_paths (add_files w file_paths s))
         \<and> (length (local_file_paths (add_files w file_paths s)) = length (local_file_paths s) \<longrightarrow>
              config_file (add_files w file_paths s) = config_file s
              \<and> combo (add_files w file_paths s) = combo s
              \<and> list_all (\<lambda>e. is_warning (fst e)) (new_entries s (add_files w file_paths s)))
         \<and> (length (local_file_paths s) < length (local_file_paths (add_files w file_paths s)) \<longrightarrow>
              (if list_all interpolation_syntax_ok
                    (option_texts (sections_to_write w (add_files w file_paths s)))
               then (w_write_error w = None \<longrightarrow>
                       config_file (add_files w file_paths s)
                         = Ini (sections_to_write w (add_files w file_paths s)))
                    \<and> (UpdateFileList (dict_keys (local_file_paths (add_files w file_paths s))))
                          \<in> fst ` set (new_entries s (add_files w file_paths s))
               else config_file (add_files w file_paths s) = config_file s
                    \<and> combo (add_files w file_paths s) = combo s
                    \<and> list_all (\<lambda>e. is_warning (fst e)
                                   \<or> fst e = Uncaught (ValueError ''invalid interpolation syntax''))
                         (new_entries s (add_files w file_paths s))))"
proof -
  obtain s1 added where l: "add_files_loop w file_paths (s, 0) = (s1, added)" by force
  let ?r = "add_files w file_paths s"
  let ?sv = "snd (write_config w s1)"
  let ?ok = "list_all interpolation_syntax_ok (option_texts (sections_to_write w s1))"
  from add_files_loop_get[of w file_paths s 0 b] l
  have g: "dict_get (local_file_paths s1) b =
           (case dict_get (local_file_paths s) b of
              Some p \<Rightarrow> Some p
            | None \<Rightarrow> List.find (\<lambda>p. w_path_exists w p \<and> os_path_basename p = b) file_paths)" by simp
  from add_files_loop_count[of w file_paths s 0] l
  have c: "length (local_file_paths s1) = length (local_file_paths s) + added" by simp
  from add_files_loop_rest[of s w file_paths 0] l
  have r: "adds warn s s1" "config s1 = config s" "config_file s1 = config_file s" "combo s1 = combo s"
    by simp_all
  have u: "same_files ?sv (update_ui_state w ?sv)" by (rule update_ui_state_files)
  show ?thesis
  proof (cases "added > 0")
    case False
    then have "?r = s1" using assms by (simp add: add_files_def l)
    with g c r False show ?thesis
      using adds_entries[OF r(1)] by (simp add: warn_def[abs_def])
  next
    case True
    show ?thesis
    proof (cases ?ok)
      case False
      have rr: "?r = uncaught (ValueError ''invalid interpolation syntax'') s1"
        using assms True False by (simp add: add_files_def l save_config_def)
      have w1: "adds (\<lambda>e. is_warning (fst e)
                        \<or> fst e = Uncaught (ValueError ''invalid interpolation syntax'')) s s1"
        by (rule adds_mono[OF r(1)]) (simp add: warn_def)
      have w2: "adds (\<lambda>e. is_warning (fst e)
                        \<or> fst e = Uncaught (ValueError ''invalid interpolation syntax'')) s1 ?r"
        by (simp add: rr adds_def new_entries_def)
      have st: "sections_to_write w ?r = sections_to_write w s1"
        by (simp add: rr sections_to_write_def)
      from g c True r False adds_entries[OF adds_trans[OF w1 w2]] show ?thesis
        by (simp add: st) (simp add: rr)
    next
      case ok: True
      have rr: "?r = update_status (''Added '' @ str_nat added @ '' files. Please '' @ quoted ''Upload to AI'' @ ''.'')
              False False (update_ui_state w ?sv)"
        using assms True ok by (simp add: add_files_def l save_config_def case_prod_beta)
      have lr: "local_file_paths ?r = local_file_paths s1"
        using u by (simp add: rr same_files_def write_config_files)
      have cr: "config ?r = config s1"
        using u by (simp add: rr same_files_def) (simp add: write_config_def split: option.splits)
      have st: "sections_to_write w ?r = sections_to_write w s1"
        by (simp add: sections_to_write_def lr cr)
      have cf: "w_write_error w = None \<Longrightarrow> config_file ?r = Ini (sections_to_write w s1)"
      proof -
        assume w: "w_write_error w = None"
        have "config_file ?sv = Ini (sections_to_write w s1)"
          using w by (simp add: write_config_def)
        then show ?thesis
          using u by (simp add: rr same_files_def)
      qed
      have a1: "adds (\<lambda>e. True) s s1" by (rule adds_mono[OF r(1)]) simp
      have a2: "adds (\<lambda>e. True) s1 ?sv"
        by (simp add: write_config_def adds_def new_entries_def split: option.splits)
      have a3: "adds (\<lambda>e. True) s ?sv" by (rule adds_trans[OF a1 a2])
      from adds_split[OF a3] obtain t where t: "trace ?sv = trace s @ t" by blast
      have m: "(UpdateFileList (dict_keys (local_file_paths ?sv)), current_chat_session ?sv, current_chat_history ?sv)
                 \<in> set (new_entries s (refreshed ?sv))"
        by (simp add: refreshed_def new_entries_def t)
      have a4: "adds ui (refreshed ?sv) (update_ui_state w ?sv)"
        unfolding update_ui_state_refreshed using combo_changed_ui by (simp add: adds_refl)
      have a5: "adds ui (update_ui_state w ?sv) ?r"
        by (simp add: rr adds_def new_entries_def ui_def)
      have len: "length (trace s) \<le> length (trace (refreshed ?sv))"
        by (simp add: refreshed_def t)
      have "(UpdateFileList (dict_keys (local_file_paths ?sv)), current_chat_session ?sv, current_chat_history ?sv)
                 \<in> set (new_entries s ?r)"
        by (rule adds_mem[OF adds_trans[OF a4 a5] m len])
      then have ev: "UpdateFileList (dict_keys (local_file_paths ?r)) \<in> fst ` set (new_entries s ?r)"
        using lr by (force simp add: write_config_files)
      from g c True cf ev lr ok show ?thesis by (simp add: st)
    qed
  qed
qed

theorem add_files_registry_witness:
  "\<not> is_processing (initial_app NoFile)
   \<and> dict_get (local_file_paths (add_files demo_world
         [''/docs/gone.pdf'', ''/docs/L1.pdf'', ''/backup/L1.pdf'', ''/docs/L2.pdf''] (initial_app NoFile)))
        ''L1.pdf'' = Some ''/docs/L1.pdf''"
proof -
  have h: "\<not> is_processing (initial_app NoFile)" by (simp add: initial_app_def)
  from add_files_registry [OF h, of demo_world
      "[''/docs/gone.pdf'', ''/docs/L1.pdf'', ''/backup/L1.pdf'', ''/docs/L2.pdf'']" "''L1.pdf''"] h
  show ?thesis
    by (simp add: initial_app_def dict_get_def demo_world_def os_path_basename_def)
qed

text \<open>
  C2. The batch \<open>A.pdf\<close>, \<open>B.pdf\<close>, \<open>C.pdf\<close> in which \<open>B.pdf\<close> times out: the worker's only
  terminal signal is \<open>error_occurred\<close> (the timeout); \<open>finished\<close> is never emitted, although
  \<open>A.pdf\<close> is in \<open>temp_uploaded_references\<close>; the remote file of \<open>B.pdf\<close> is deleted, the one of
  \<open>A.pdf\<close> is not, and \<open>C.pdf\<close> is never uploaded. On the controller, the run ends with
  \<open>uploaded_files\<close> empty.
\<close>

theorem batch_with_timeout_aborts:
  "map_option (\<lambda>st. (filter is_terminal (emitted st), temp_uploaded_references st,
                      filter (\<lambda>c. c = DeleteFile ''files/A.pdf'' \<or> c = DeleteFile ''files/B.pdf''
                                \<or> c = UploadFile ''/d/C.pdf'' ''C.pdf'' ''application/pdf'') (calls st)))
     (PDFUploadWorker_run batch_env batch_paths batch_names)
   = Some ([ErrorOccurred (''Upload Error: Timeout processing file '' @ quoted ''B.pdf'')],
           [\<lparr>name = ''files/A.pdf'', display_name = ''A.pdf'', state = ACTIVE\<rparr>],
           [DeleteFile ''files/B.pdf''])
   \<and> worker (upload_files_to_ai batch_world batch_app) = Some (PDFUploadWorker batch_paths batch_names)
   \<and> map_option (\<lambda>s. (uploaded_files s, is_processing s))
         (settle batch_world batch_env demo_chat_env (upload_files_to_ai batch_world batch_app))
       = Some ([], False)"
  by code_simp

text \<open>
  C4, as the code has it. Take a worker on which \<open>stop()\<close> lands when \<open>k\<close> (or \<open>j\<close>) of its steps are
  done, and whose run makes a further step after that, so that the stop precedes the worker's
  last read of \<open>_is_running\<close> or its last blocking call. Then \<open>AIChatWorker\<close> emits nothing,
  neither \<open>result_ready\<close> nor \<open>error_occurred\<close>; \<open>PDFUploadWorker\<close> returns and never emits
  \<open>finished\<close>, and when the stop came before \<open>run\<close> started it emits \<open>error_occurred\<close> with the
  text \<open>Upload stopped.\<close> and nothing else. Nothing is said of a stop that lands after the last
  step: the signal guarded by the last read is then emitted (\<open>stop_after_last_read_still_emits\<close>
  below), since the read and the emission are two statements.
\<close>

theorem stop_suppresses_completion:
  "(ce_stop_at ce = Some k \<and> k < ticks (AIChatWorker_run ce chat_session msg doc_ref) \<longrightarrow>
      emitted (AIChatWorker_run ce chat_session msg doc_ref) = [])
   \<and> (\<exists>st. PDFUploadWorker_run ue file_paths basenames = Some st
         \<and> (ue_stop_at ue = Some j \<and> j < ticks st \<longrightarrow>
              list_all (\<lambda>g. \<not> is_finished g) (emitted st)
              \<and> (j = 0 \<longrightarrow> emitted st = [ErrorOccurred ''Upload stopped.''])))"
proof
  show "ce_stop_at ce = Some k \<and> k < ticks (AIChatWorker_run ce chat_session msg doc_ref) \<longrightarrow>
      emitted (AIChatWorker_run ce chat_session msg doc_ref) = []"
    by (auto simp add: AIChatWorker_run_def is_running_def worker_start_def tick_def tested_def
          emit_signal_def Let_def split: sum.splits)
next
  show "\<exists>st. PDFUploadWorker_run ue file_paths basenames = Some st
         \<and> (ue_stop_at ue = Some j \<and> j < ticks st \<longrightarrow>
              list_all (\<lambda>g. \<not> is_finished g) (emitted st)
              \<and> (j = 0 \<longrightarrow> emitted st = [ErrorOccurred ''Upload stopped.'']))"
  proof (cases "is_running (ue_stop_at ue) worker_start")
    case False
    then show ?thesis
      by (auto simp add: PDFUploadWorker_run_def emit_signal_def worker_start_def tested_def)
  next
    case True
    from upload_loop_returns[of ue basenames 0 file_paths "sleep (1 / 10) (tested worker_start)"]
    obtain e st' where r: "upload_loop ue basenames 0 file_paths (sleep (1 / 10) (tested worker_start)) = Some (e, st')"
      and p: "progress_only (sleep (1 / 10) (tested worker_start)) st'" by blast
    from p have nf: "list_all (\<lambda>g. \<not> is_terminal g) (emitted st')"
      by (auto simp add: progress_only_def worker_start_def list_all_iff)
    have "is_finished g \<Longrightarrow> is_terminal g" for g by (cases g) simp_all
    with nf have nf': "list_all (\<lambda>g. \<not> is_finished g) (emitted st')"
      by (auto simp add: list_all_iff)
    from True have j0: "ue_stop_at ue \<noteq> Some 0"
      by (auto simp add: is_running_def worker_start_def)
    show ?thesis
    proof (cases e)
      case None
      with True r nf' j0 show ?thesis
        by (auto simp add: PDFUploadWorker_run_def emit_signal_def is_running_def)
    next
      case (Some x)
      with True r nf' j0 show ?thesis
        by (auto simp add: PDFUploadWorker_run_def emit_signal_def)
    qed
  qed
qed

theorem stop_suppresses_completion_witness:
  "ce_stop_at (demo_chat_env\<lparr>ce_stop_at := Some 3\<rparr>) = Some 3
   \<and> ticks (AIChatWorker_run (demo_chat_env\<lparr>ce_stop_at := Some 3\<rparr>) (Some 0) ''Hello'' None) = 4
   \<and> emitted (AIChatWorker_run (demo_chat_env\<lparr>ce_stop_at := Some 3\<rparr>) (Some 0) ''Hello'' None) = []
   \<and> map_option ticks (PDFUploadWorker_run (batch_env\<lparr>ue_stop_at := Some 8\<rparr>) [''/d/A.pdf''] [''A.pdf'']) = Some 9
   \<and> map_option (\<lambda>st. list_all (\<lambda>g. \<not> is_finished g) (emitted st))
         (PDFUploadWorker_run (batch_env\<lparr>ue_stop_at := Some 8\<rparr>) [''/d/A.pdf''] [''A.pdf'']) = Some True"
proof -
  let ?ce = "demo_chat_env\<lparr>ce_stop_at := Some 3\<rparr>"
  let ?ue = "batch_env\<lparr>ue_stop_at := Some 8\<rparr>"
  have c: "ce_stop_at ?ce = Some 3" by simp
  have t: "ticks (AIChatWorker_run ?ce (Some 0) ''Hello'' None) = 4" by code_simp
  have u: "ue_stop_at ?ue = Some 8" by simp
  have n: "map_option ticks (PDFUploadWorker_run ?ue [''/d/A.pdf''] [''A.pdf'']) = Some 9" by code_simp
  from stop_suppresses_completion [of ?ce 3 "Some 0" "''Hello''" None ?ue "[''/d/A.pdf'']" "[''A.pdf'']" 8]
  obtain st where e: "emitted (AIChatWorker_run ?ce (Some 0) ''Hello'' None) = []"
    and r: "PDFUploadWorker_run ?ue [''/d/A.pdf''] [''A.pdf''] = Some st"
    and f: "8 < ticks st \<Longrightarrow> list_all (\<lambda>g. \<not> is_finished g) (emitted st)"
    using c t u by auto
  from n r have "ticks st = 9" by simp
  with f have "list_all (\<lambda>g. \<not> is_finished g) (emitted st)" by simp
  with c t e n r show ?thesis by simp
qed

text \<open>
  The claim as the specification words it fails in two ways. A \<open>PDFUploadWorker\<close> stopped before
  its run starts does emit a failure notification, by its first statement.
\<close>

theorem stop_before_run_emits_error:
  "map_option emitted (PDFUploadWorker_run (batch_env\<lparr>ue_stop_at := Some 0\<rparr>) batch_paths batch_names)
     = Some [ErrorOccurred ''Upload stopped.'']"
  by code_simp

text \<open>
  And a stop that lands between the last read of \<open>_is_running\<close> and the emission it guards
  does not suppress the completion signal: the chat worker stopped when its four steps are
  done (the read before \<open>result_ready.emit\<close> was the fourth) still emits the reply, the upload
  worker of one file stopped when its nine steps are done still emits \<open>finished\<close>.
\<close>

lemma stop_after_last_read_still_emits:
  "emitted (AIChatWorker_run (demo_chat_env\<lparr>ce_stop_at := Some 4\<rparr>) (Some 0) ''Hello'' None)
     = [ResultReady ''An answer.'']
   \<and> map_option (\<lambda>st. filter is_terminal (emitted st))
         (PDFUploadWorker_run (batch_env\<lparr>ue_stop_at := Some 9\<rparr>) [''/d/A.pdf''] [''A.pdf''])
       = Some [Finished [\<lparr>name = ''files/A.pdf'', display_name = ''A.pdf'', state = ACTIVE\<rparr>]]"
  by code_simp




text \<open>
  C5, as the code has it. Settings are applied to a controller that is not busy, the texts to
  save pass the check of \<open>ConfigParser\<close> and the write succeeds, the SDK is installed, the API
  key or the model of the settings differs from the current one, and after the update both
  are non-empty. Then \<open>initialize_ai\<close> runs on the updated config: \<open>genai.configure\<close> is called
  with the new key at a moment when the controller holds no session; the session the
  controller held before is not its session afterwards (it has none, or one started since);
  when the configuration succeeds the model is rebuilt from the new settings, and when it
  fails the controller is left unconfigured, with no model and no session.
\<close>

theorem changed_settings_reinitialize:
  assumes "\<not> is_processing s"
    and "list_all interpolation_syntax_ok
           (option_texts (sections_to_write w (s\<lparr>config := cfg_update (config s) settings\<rparr>)))"
    and "w_write_error w = None" and "w_gemini_imported w"
    and "api_key settings \<noteq> api_key (config s) \<or> model settings \<noteq> model (config s)"
    and "truthy (api_key (cfg_update (config s) settings))"
    and "truthy (model (cfg_update (config s) settings))"
  shows "apply_and_save_settings w settings s =
           snd (initialize_ai w
             (update_status ''API Key or Model changed, re-initializing AI...'' False False
               (update_status ''Settings saved.'' False False
                 (snd (write_config w (s\<lparr>config := cfg_update (config s) settings\<rparr>))))))
         \<and> config (apply_and_save_settings w settings s) = cfg_update (config s) settings
         \<and> (GenaiConfigure (str_opt (api_key (cfg_update (config s) settings))), None, current_chat_history s)
              \<in> set (new_entries s (apply_and_save_settings w settings s))
         \<and> (current_chat_session (apply_and_save_settings w settings s) = None
            \<or> current_chat_session (apply_and_save_settings w settings s) = Some (sessions_started s))
         \<and> (\<forall>n. current_chat_session s = Some n \<and> n < sessions_started s \<longrightarrow>
               current_chat_session (apply_and_save_settings w settings s) \<noteq> Some n)
         \<and> (case w_configure w (str_opt (api_key (cfg_update (config s) settings)))
                     (str_opt (model (cfg_update (config s) settings)))
                     (case temperature (cfg_update (config s) settings) of
                        None \<Rightarrow> DEFAULT_TEMPERATURE | Some t \<Rightarrow> t) of
               ConfigOk \<Rightarrow>
                 is_ai_configured (apply_and_save_settings w settings s)
                 \<and> ai_model (apply_and_save_settings w settings s)
                     = Some \<lparr>gm_name = str_opt (model (cfg_update (config s) settings)),
                             gm_temperature = (case temperature (cfg_update (config s) settings) of
                                                None \<Rightarrow> DEFAULT_TEMPERATURE | Some t \<Rightarrow> t)\<rparr>
             | AuthError e \<Rightarrow>
                 \<not> is_ai_configured (apply_and_save_settings w settings s)
                 \<and> ai_model (apply_and_save_settings w settings s) = None
                 \<and> current_chat_session (apply_and_save_settings w settings s) = None
             | NotFound \<Rightarrow>
                 \<not> is_ai_configured (apply_and_save_settings w settings s)
                 \<and> ai_model (apply_and_save_settings w settings s) = None
                 \<and> current_chat_session (apply_and_save_settings w settings s) = None
             | OtherError e \<Rightarrow>
                 \<not> is_ai_configured (apply_and_save_settings w settings s)
                 \<and> ai_model (apply_and_save_settings w settings s) = None
                 \<and> current_chat_session (apply_and_save_settings w settings s) = None)"
proof -
  let ?c = "cfg_update (config s) settings"
  let ?sv = "snd (write_config w (s\<lparr>config := ?c\<rparr>))"
  let ?s3 = "update_status ''API Key or Model changed, re-initializing AI...'' False False
               (update_status ''Settings saved.'' False False ?sv)"
  let ?r = "apply_and_save_settings w settings s"
  let ?key = "str_opt (api_key ?c)"
  let ?mn = "str_opt (model ?c)"
  let ?temp = "case temperature ?c of None \<Rightarrow> DEFAULT_TEMPERATURE | Some t \<Rightarrow> t"
  have r: "?r = snd (initialize_ai w ?s3)"
    using assms(1,2,3,5) by (simp add: apply_and_save_settings_def Let_def save_config_def write_config_def)
  have fsv: "config ?sv = ?c" "sessions_started ?sv = sessions_started s"
    "current_chat_session ?sv = current_chat_session s" "current_chat_history ?sv = current_chat_history s"
    "trace ?sv = trace s @ [(ConfigSaved, current_chat_session s, current_chat_history s)]"
    using assms(3) by (simp_all add: write_config_def)
  have f3: "config ?s3 = ?c" "sessions_started ?s3 = sessions_started s"
    "trace ?s3 = trace s @ [(ConfigSaved, current_chat_session s, current_chat_history s),
        (Status ''Settings saved.'' False False, current_chat_session s, current_chat_history s),
        (Status ''API Key or Model changed, re-initializing AI...'' False False, current_chat_session s, current_chat_history s)]"
    by (simp_all add: fsv)
  let ?s2 = "emit (GenaiConfigure ?key)
               ((update_status ''Configuring AI...'' False True ?s3)
                  \<lparr>is_ai_configured := False, ai_model := None, current_chat_session := None\<rparr>)"
  have f2: "current_chat_session ?s2 = None" "sessions_started ?s2 = sessions_started s" "config ?s2 = ?c"
    by (simp_all add: fsv)
  have t2: "trace ?s2 = trace s @ [(ConfigSaved, current_chat_session s, current_chat_history s),
        (Status ''Settings saved.'' False False, current_chat_session s, current_chat_history s),
        (Status ''API Key or Model changed, re-initializing AI...'' False False, current_chat_session s, current_chat_history s),
        (Status ''Configuring AI...'' False True, current_chat_session s, current_chat_history s),
        (GenaiConfigure ?key, None, current_chat_history s)]"
    by (simp add: fsv)
  have m2: "(GenaiConfigure ?key, None, current_chat_history s) \<in> set (new_entries s ?s2)"
    unfolding new_entries_def t2 by simp
  have l2: "length (trace s) \<le> length (trace ?s2)" unfolding t2 by simp
  show ?thesis
  proof (cases "w_configure w ?key ?mn ?temp")
    case ConfigOk
    let ?s4 = "update_status (''AI Configured: '' @ quoted ?mn @ ''. Ready.'') False False
                 (?s2\<lparr>ai_model := Some \<lparr>gm_name = ?mn, gm_temperature = ?temp\<rparr>, is_ai_configured := True\<rparr>)"
    have i: "snd (initialize_ai w ?s3) = try_start_chat_session w ?s4"
      using assms(4,6,7) ConfigOk by (simp add: initialize_ai_def Let_def fsv)
    have a4: "adds ui ?s2 ?s4" by (simp add: adds_def new_entries_def ui_def)
    have a5: "adds ui ?s2 (try_start_chat_session w ?s4)" by (rule adds_trans[OF a4 chat_ui(1)])
    from adds_mem[OF a5 m2 l2]
    have ev: "(GenaiConfigure ?key, None, current_chat_history s) \<in> set (new_entries s ?r)" by (simp add: r i)
    from chat_session_step(1)[of ?s4 w]
    have st: "session_step ?s4 (try_start_chat_session w ?s4)" .
    have f4: "current_chat_session ?s4 = None" "sessions_started ?s4 = sessions_started s" "config ?s4 = ?c"
      "is_ai_configured ?s4" "ai_model ?s4 = Some \<lparr>gm_name = ?mn, gm_temperature = ?temp\<rparr>"
      by (simp_all add: fsv)
    from st f4 show ?thesis
      unfolding r i using ev[unfolded r i] ConfigOk
      by (auto simp add: session_step_def i)
  next
    case (AuthError e)
    let ?msg = "''Authentication Error: '' @ e @ ''. Check API Key/Project.''"
    let ?s4 = "(update_status ?msg True False (emit (MsgBox Critical ''AI Config Error'' ?msg) ?s2))
                 \<lparr>ai_model := None, current_chat_session := None\<rparr>"
    have i: "snd (initialize_ai w ?s3) = ?s4"
      using assms(4,6,7) AuthError by (simp add: initialize_ai_def Let_def fsv)
    have a4: "adds ui ?s2 ?s4" by (simp add: adds_def new_entries_def ui_def)
    from adds_mem[OF a4 m2 l2]
    have ev: "(GenaiConfigure ?key, None, current_chat_history s) \<in> set (new_entries s ?s4)" .
    show ?thesis
      unfolding r i using ev AuthError by (simp add: fsv)
  next
    case NotFound
    let ?msg = "''Model '' @ quoted ?mn @ '' not found.''"
    let ?s4 = "(update_status ?msg True False (emit (MsgBox Critical ''AI Config Error'' ?msg) ?s2))
                 \<lparr>ai_model := None, current_chat_session := None\<rparr>"
    have i: "snd (initialize_ai w ?s3) = ?s4"
      using assms(4,6,7) NotFound by (simp add: initialize_ai_def Let_def fsv)
    have a4: "adds ui ?s2 ?s4" by (simp add: adds_def new_entries_def ui_def)
    from adds_mem[OF a4 m2 l2]
    have ev: "(GenaiConfigure ?key, None, current_chat_history s) \<in> set (new_entries s ?s4)" .
    show ?thesis
      unfolding r i using ev NotFound by (simp add: fsv)
  next
    case (OtherError e)
    let ?msg = "''AI configuration failed: '' @ e"
    let ?s4 = "(update_status ?msg True False (emit (MsgBox Critical ''AI Config Error'' ?msg) ?s2))
                 \<lparr>ai_model := None, current_chat_session := None\<rparr>"
    have i: "snd (initialize_ai w ?s3) = ?s4"
      using assms(4,6,7) OtherError by (simp add: initialize_ai_def Let_def fsv)
    have a4: "adds ui ?s2 ?s4" by (simp add: adds_def new_entries_def ui_def)
    from adds_mem[OF a4 m2 l2]
    have ev: "(GenaiConfigure ?key, None, current_chat_history s) \<in> set (new_entries s ?s4)" .
    show ?thesis
      unfolding r i using ev OtherError by (simp add: fsv)
  qed
qed

theorem changed_settings_reinitialize_witness:
  "\<not> is_processing settings_app
   \<and> list_all interpolation_syntax_ok
        (option_texts (sections_to_write demo_world (settings_app\<lparr>config := cfg_update (config settings_app) other_key\<rparr>)))
   \<and> w_write_error demo_world = None \<and> w_gemini_imported demo_world
   \<and> api_key other_key \<noteq> api_key (config settings_app)
   \<and> truthy (api_key (cfg_update (config settings_app) other_key))
   \<and> truthy (model (cfg_update (config settings_app) other_key))
   \<and> current_chat_session settings_app = Some 0
   \<and> current_chat_session (apply_and_save_settings demo_world other_key settings_app) \<noteq> Some 0
   \<and> (GenaiConfigure ''other'', None, current_chat_history settings_app)
        \<in> set (new_entries settings_app (apply_and_save_settings demo_world other_key settings_app))"
proof -
  have p: "list_all interpolation_syntax_ok
        (option_texts (sections_to_write demo_world (settings_app\<lparr>config := cfg_update (config settings_app) other_key\<rparr>)))"
    by code_simp
  have h: "\<not> is_processing settings_app" "w_write_error demo_world = None" "w_gemini_imported demo_world"
    "api_key other_key \<noteq> api_key (config settings_app) \<or> model other_key \<noteq> model (config settings_app)"
    "truthy (api_key (cfg_update (config settings_app) other_key))"
    "truthy (model (cfg_update (config settings_app) other_key))"
    by (simp_all add: settings_app_def chatting_app_def initial_app_def demo_world_def other_key_def
          cfg_update_def truthy_def DEFAULT_MODEL_def)
  have k: "current_chat_session settings_app = Some 0" "0 < sessions_started settings_app"
    "api_key other_key \<noteq> api_key (config settings_app)"
    "str_opt (api_key (cfg_update (config settings_app) other_key)) = ''other''"
    by (simp_all add: settings_app_def chatting_app_def initial_app_def other_key_def cfg_update_def str_opt_def)
  from changed_settings_reinitialize [OF h(1) p h(2-6)] p h k show ?thesis by auto
qed

text \<open>
  Without the last hypothesis the claim fails: settings that clear the API key are saved, then
  \<open>initialize_ai\<close> returns at its test of the key, before it invalidates anything. The
  controller keeps its session and stays configured, and \<open>genai.configure\<close> is not called.
\<close>

theorem cleared_key_keeps_session:
  "\<not> is_processing settings_app
   \<and> api_key cleared_key \<noteq> api_key (config settings_app)
   \<and> current_chat_session settings_app = Some 0
   \<and> current_chat_session (apply_and_save_settings demo_world cleared_key settings_app) = Some 0
   \<and> is_ai_configured (apply_and_save_settings demo_world cleared_key settings_app)
   \<and> map fst (new_entries settings_app (apply_and_save_settings demo_world cleared_key settings_app))
       = [ConfigSaved, Status ''Settings saved.'' False False,
          Status ''API Key or Model changed, re-initializing AI...'' False False,
          Status ''API Key or Model Name missing in settings.'' True False]
   \<and> list_all (\<lambda>e. \<not> is_configure (fst e))
        (new_entries settings_app (apply_and_save_settings demo_world cleared_key settings_app))"
  by code_simp




end
